theory Spec2Isabelle
  imports Complex_Main "HOL-Library.Multiset" "HOL-Library.Sublist"
begin

section \<open>Data model (internal/model/book.go)\<close>

text \<open>
  An instant is counted from Go's zero time (January 1 of year 1, UTC), which is
  \<open>zero_time\<close>. The storage engine is taken to hand a stored instant back unchanged.
\<close>

type_synonym time = int

definition zero_time :: time where
  "zero_time = 0"

text \<open>
  A \<open>time.Time\<close> value as a request carries it: the instant, and whether the value has
  a \<open>Location\<close> (its \<open>loc\<close> pointer is not \<open>nil\<close>). The zero value of the struct is
  the zero instant without a \<open>Location\<close>. The table keeps the instant.
\<close>

record Time =
  instant :: time
  located :: bool

definition zero_Time :: Time where
  "zero_Time = \<lparr>instant = zero_time, located = False\<rparr>"

text \<open>\<open>type ReadingStatus string\<close> with its four constants.\<close>

type_synonym ReadingStatus = string

definition StatusNotStarted :: ReadingStatus where
  "StatusNotStarted = ''not_started''"

definition StatusReading :: ReadingStatus where
  "StatusReading = ''reading''"

definition StatusCompleted :: ReadingStatus where
  "StatusCompleted = ''completed''"

definition StatusDropped :: ReadingStatus where
  "StatusDropped = ''dropped''"

text \<open>A pointer field of the Go structs is an option: \<open>nil\<close> is \<open>None\<close>.\<close>

record Book =
  ID :: int
  Title :: string
  Author :: string
  ISBN :: string
  Publisher :: string
  PublishedDate :: "time option"
  PurchaseDate :: time
  PurchasePrice :: int
  Status :: ReadingStatus
  StartReadDate :: "time option"
  EndReadDate :: "time option"
  Rating :: "int option"
  Notes :: string
  Tags :: string
  CreatedAt :: time
  UpdatedAt :: time

record CreateBookRequest =
  cTitle :: string
  cAuthor :: string
  cISBN :: string
  cPublisher :: string
  cPublishedDate :: "time option"
  cPurchaseDate :: Time
  cPurchasePrice :: int
  cTags :: string
  cNotes :: string

record UpdateBookRequest =
  uTitle :: "string option"
  uAuthor :: "string option"
  uISBN :: "string option"
  uPublisher :: "string option"
  uPublishedDate :: "time option"
  uPurchasePrice :: "int option"
  uStatus :: "ReadingStatus option"
  uStartReadDate :: "time option"
  uEndReadDate :: "time option"
  uRating :: "int option"
  uNotes :: "string option"
  uTags :: "string option"

record BookFilter =
  fStatus :: "ReadingStatus option"
  fAuthor :: "string option"
  fPublisher :: "string option"
  fTag :: "string option"
  fRating :: "int option"
  fSearch :: "string option"

text \<open>The request with every field absent (the zero value of \<open>UpdateBookRequest\<close>).\<close>

definition no_update :: UpdateBookRequest where
  "no_update = \<lparr>uTitle = None, uAuthor = None, uISBN = None, uPublisher = None,
     uPublishedDate = None, uPurchasePrice = None, uStatus = None, uStartReadDate = None,
     uEndReadDate = None, uRating = None, uNotes = None, uTags = None\<rparr>"

definition no_filter :: BookFilter where
  "no_filter = \<lparr>fStatus = None, fAuthor = None, fPublisher = None, fTag = None,
     fRating = None, fSearch = None\<rparr>"

section \<open>Errors\<close>

text \<open>
  The Go code returns \<open>fmt.Errorf\<close> values; each constructor below is one of the sites
  where such an error is made, with the arguments its message is formatted with.
\<close>

datatype error =
    InvalidBookID int
  | BookNotFound int
  | InvalidInput
  | FuturePurchaseDate
  | RatingOutOfRange int
  | AlreadyReading
  | AlreadyCompleted
  | NotReading
  | UpdateFailed
  | ListFailed
  | CountFailed

text \<open>
  The error taxonomy of the specification, and the kind it gives to each error site:
  a malformed identifier is an \<open>InvalidArgument\<close>, a missing record a \<open>NotFound\<close>,
  a missing required field a \<open>ValidationError\<close>, and a future purchase date, a rating
  out of range or an illegal state transition a \<open>BusinessRuleError\<close>. A statement the
  storage engine rejects or fails on has no kind of its own.
\<close>

datatype error_kind =
  BadRequest | ValidationError | BusinessRuleError | InvalidArgument | NotFound | Unclassified

fun kind_of :: "error \<Rightarrow> error_kind" where
  "kind_of (InvalidBookID _) = InvalidArgument"
| "kind_of (BookNotFound _) = NotFound"
| "kind_of InvalidInput = ValidationError"
| "kind_of FuturePurchaseDate = BusinessRuleError"
| "kind_of (RatingOutOfRange _) = BusinessRuleError"
| "kind_of AlreadyReading = BusinessRuleError"
| "kind_of AlreadyCompleted = BusinessRuleError"
| "kind_of NotReading = BusinessRuleError"
| "kind_of UpdateFailed = Unclassified"
| "kind_of ListFailed = Unclassified"
| "kind_of CountFailed = Unclassified"

section \<open>The books table (internal/database/migration.sql)\<close>

text \<open>
  The table is the list of its rows in insertion order, with the counter that
  \<open>AUTOINCREMENT\<close> keeps: the largest id ever handed out.
\<close>

record store =
  rows :: "Book list"
  seq :: int

definition empty_store :: store where
  "empty_store = \<lparr>rows = [], seq = 0\<rparr>"

text \<open>The two \<open>CHECK\<close> constraints of the table; a \<open>NULL\<close> rating passes.\<close>

definition status_check :: "ReadingStatus \<Rightarrow> bool" where
  "status_check st \<longleftrightarrow>
     st \<in> set [StatusNotStarted, StatusReading, StatusCompleted, StatusDropped]"

definition rating_check :: "int option \<Rightarrow> bool" where
  "rating_check r = (case r of None \<Rightarrow> True | Some n \<Rightarrow> 1 \<le> n \<and> n \<le> 5)"

definition row_ok :: "Book \<Rightarrow> bool" where
  "row_ok b \<longleftrightarrow> status_check (Status b) \<and> rating_check (Rating b)"

text \<open>
  A well-formed table: every row passes the constraints, ids are the distinct positive
  numbers handed out so far.
\<close>

definition wf_store :: "store \<Rightarrow> bool" where
  "wf_store s \<longleftrightarrow>
     list_all row_ok (rows s) \<and>
     list_all (\<lambda>b. 0 < ID b \<and> ID b \<le> seq s) (rows s) \<and>
     distinct (map ID (rows s)) \<and> 0 \<le> seq s"

text \<open>A condition of a \<open>WHERE\<close> clause with its argument.\<close>

datatype condition =
    Status_eq ReadingStatus
  | Author_eq string
  | Publisher_eq string
  | Rating_eq int
  | Tags_like string
  | Title_or_author_like string

text \<open>
  What the repository leaves to the storage engine: how \<open>ORDER BY created_at DESC\<close>
  arranges the selected rows, the \<open>LIKE\<close> operator (value, then pattern), and
  whether it fails on a query with the given conditions over the given rows instead of
  answering it.
\<close>

record engine =
  order_by :: "Book list \<Rightarrow> Book list"
  like :: "string \<Rightarrow> string \<Rightarrow> bool"
  fails :: "condition list \<Rightarrow> Book list \<Rightarrow> bool"

text \<open>
  The contract of \<open>ORDER BY created_at DESC\<close>: the rows selected, each as often as it
  was selected, in an order that is descending in \<open>created_at\<close>. It says nothing about
  rows whose \<open>created_at\<close> are equal.
\<close>

definition order_by_ok :: "engine \<Rightarrow> bool" where
  "order_by_ok eng \<longleftrightarrow>
     (\<forall>xs. mset (order_by eng xs) = mset xs \<and>
           sorted_wrt (\<lambda>a b. CreatedAt b \<le> CreatedAt a) (order_by eng xs))"

text \<open>
  An engine is stable when it returns rows with equal \<open>created_at\<close> in the order in
  which it selected them, which is the order of the table. SQLite, the engine that
  \<open>database.go\<close> opens, does.
\<close>

definition order_by_stable :: "engine \<Rightarrow> bool" where
  "order_by_stable eng \<longleftrightarrow>
     (\<forall>xs t. filter (\<lambda>b. CreatedAt b = t) (order_by eng xs) =
             filter (\<lambda>b. CreatedAt b = t) xs)"

section \<open>Repository (internal/repository/book_repository.go)\<close>

text \<open>
  Each function runs its statement on the table and returns what the Go function
  returns. The storage engine rejects an \<open>UPDATE\<close> that violates a constraint, and it
  can fail on a \<open>SELECT\<close> with conditions (SQLite does on a \<open>LIKE\<close> pattern of more
  than 50000 bytes); failures that do not depend on the statement (an unreadable file)
  are left out. \<open>INSERT\<close> cannot violate a constraint: the request's strings are
  never \<open>NULL\<close> and the constrained columns take their defaults.
\<close>

subsection \<open>GetByID\<close>

definition GetByID :: "int \<Rightarrow> store \<Rightarrow> error + Book" where
  "GetByID i s =
     (case find (\<lambda>b. ID b = i) (rows s) of
        None \<Rightarrow> Inl (BookNotFound i)
      | Some b \<Rightarrow> Inr b)"

subsection \<open>Create\<close>

text \<open>
  The \<open>INSERT\<close> names nine columns; the others take their defaults: the next id,
  status \<open>not_started\<close>, \<open>NULL\<close> read dates and rating, and \<open>CURRENT_TIMESTAMP\<close>
  (\<open>ts\<close>) for both audit columns.
\<close>

definition insert_row :: "time \<Rightarrow> CreateBookRequest \<Rightarrow> store \<Rightarrow> store" where
  "insert_row ts req s =
     \<lparr>rows = rows s @
        [\<lparr>ID = seq s + 1, Title = cTitle req, Author = cAuthor req, ISBN = cISBN req,
          Publisher = cPublisher req, PublishedDate = cPublishedDate req,
          PurchaseDate = instant (cPurchaseDate req), PurchasePrice = cPurchasePrice req,
          Status = StatusNotStarted, StartReadDate = None, EndReadDate = None,
          Rating = None, Notes = cNotes req, Tags = cTags req,
          CreatedAt = ts, UpdatedAt = ts\<rparr>],
      seq = seq s + 1\<rparr>"

definition Create :: "time \<Rightarrow> CreateBookRequest \<Rightarrow> store \<Rightarrow> (error + Book) \<times> store" where
  "Create ts req s = (let s' = insert_row ts req s in (GetByID (seq s') s', s'))"

subsection \<open>List and Count\<close>

fun holds :: "engine \<Rightarrow> condition \<Rightarrow> Book \<Rightarrow> bool" where
  "holds eng (Status_eq v) b = (Status b = v)"
| "holds eng (Author_eq v) b = (Author b = v)"
| "holds eng (Publisher_eq v) b = (Publisher b = v)"
| "holds eng (Rating_eq v) b = (Rating b = Some v)"
| "holds eng (Tags_like p) b = like eng (Tags b) p"
| "holds eng (Title_or_author_like p) b = (like eng (Title b) p \<or> like eng (Author b) p)"

text \<open>No condition: no \<open>WHERE\<close> clause; otherwise the conditions joined by \<open>AND\<close>.\<close>

definition where_clause :: "engine \<Rightarrow> condition list \<Rightarrow> Book \<Rightarrow> bool" where
  "where_clause eng conds b = list_all (\<lambda>c. holds eng c b) conds"

definition opt_cond :: "('v \<Rightarrow> condition) \<Rightarrow> 'v option \<Rightarrow> condition list" where
  "opt_cond c x = (case x of None \<Rightarrow> [] | Some v \<Rightarrow> [c v])"

text \<open>The conditions \<open>List\<close> assembles (lines 149 to 178).\<close>

definition List_conditions :: "BookFilter option \<Rightarrow> condition list" where
  "List_conditions flt =
     (case flt of
        None \<Rightarrow> []
      | Some f \<Rightarrow>
          opt_cond Status_eq (fStatus f) @
          opt_cond Author_eq (fAuthor f) @
          opt_cond Publisher_eq (fPublisher f) @
          opt_cond Rating_eq (fRating f) @
          opt_cond (\<lambda>t. Tags_like (''%'' @ t @ ''%'')) (fTag f) @
          opt_cond (\<lambda>t. Title_or_author_like (''%'' @ t @ ''%'')) (fSearch f))"

text \<open>\<open>LIMIT\<close> only for a positive limit, \<open>OFFSET\<close> only inside it and when positive.\<close>

definition paging :: "int \<Rightarrow> int \<Rightarrow> Book list \<Rightarrow> Book list" where
  "paging limit offset xs =
     (if limit > 0
      then take (nat limit) (if offset > 0 then drop (nat offset) xs else xs)
      else xs)"

definition List :: "engine \<Rightarrow> BookFilter option \<Rightarrow> int \<Rightarrow> int \<Rightarrow> store \<Rightarrow> Book list" where
  "List eng flt limit offset s =
     paging limit offset
       (order_by eng (filter (where_clause eng (List_conditions flt)) (rows s)))"

text \<open>The conditions \<open>Count\<close> assembles (lines 376 to 402).\<close>

definition Count_conditions :: "BookFilter option \<Rightarrow> condition list" where
  "Count_conditions flt =
     (case flt of
        None \<Rightarrow> []
      | Some f \<Rightarrow>
          opt_cond Status_eq (fStatus f) @
          opt_cond Author_eq (fAuthor f) @
          opt_cond Publisher_eq (fPublisher f) @
          opt_cond Rating_eq (fRating f) @
          opt_cond (\<lambda>t. Tags_like (''%'' @ t @ ''%'')) (fTag f) @
          opt_cond (\<lambda>t. Title_or_author_like (''%'' @ t @ ''%'')) (fSearch f))"

definition Count :: "engine \<Rightarrow> BookFilter option \<Rightarrow> store \<Rightarrow> int" where
  "Count eng flt s =
     int (length (filter (where_clause eng (Count_conditions flt)) (rows s)))"

text \<open>
  \<open>List\<close> and \<open>Count\<close> above are what the two queries answer. The Go functions return
  an error instead when the engine fails on the query: \<open>run_List\<close> and \<open>run_Count\<close>
  are the functions with their error return.
\<close>

definition run_List ::
  "engine \<Rightarrow> BookFilter option \<Rightarrow> int \<Rightarrow> int \<Rightarrow> store \<Rightarrow> error + Book list" where
  "run_List eng flt limit offset s =
     (if fails eng (List_conditions flt) (rows s) then Inl ListFailed
      else Inr (List eng flt limit offset s))"

definition run_Count :: "engine \<Rightarrow> BookFilter option \<Rightarrow> store \<Rightarrow> error + int" where
  "run_Count eng flt s =
     (if fails eng (Count_conditions flt) (rows s) then Inl CountFailed
      else Inr (Count eng flt s))"

subsection \<open>Update\<close>

text \<open>One entry of the \<open>SET\<close> clause with its argument.\<close>

datatype assignment =
    Set_title string
  | Set_author string
  | Set_isbn string
  | Set_publisher string
  | Set_published_date time
  | Set_purchase_price int
  | Set_status ReadingStatus
  | Set_start_read_date time
  | Set_end_read_date time
  | Set_rating int
  | Set_notes string
  | Set_tags string

fun assign :: "assignment \<Rightarrow> Book \<Rightarrow> Book" where
  "assign (Set_title v) b = b\<lparr>Title := v\<rparr>"
| "assign (Set_author v) b = b\<lparr>Author := v\<rparr>"
| "assign (Set_isbn v) b = b\<lparr>ISBN := v\<rparr>"
| "assign (Set_publisher v) b = b\<lparr>Publisher := v\<rparr>"
| "assign (Set_published_date v) b = b\<lparr>PublishedDate := Some v\<rparr>"
| "assign (Set_purchase_price v) b = b\<lparr>PurchasePrice := v\<rparr>"
| "assign (Set_status v) b = b\<lparr>Status := v\<rparr>"
| "assign (Set_start_read_date v) b = b\<lparr>StartReadDate := Some v\<rparr>"
| "assign (Set_end_read_date v) b = b\<lparr>EndReadDate := Some v\<rparr>"
| "assign (Set_rating v) b = b\<lparr>Rating := Some v\<rparr>"
| "assign (Set_notes v) b = b\<lparr>Notes := v\<rparr>"
| "assign (Set_tags v) b = b\<lparr>Tags := v\<rparr>"

text \<open>The \<open>CHECK\<close> constraint, if any, of the column an entry assigns.\<close>

fun assignment_ok :: "assignment \<Rightarrow> bool" where
  "assignment_ok (Set_status v) = status_check v"
| "assignment_ok (Set_rating v) = rating_check (Some v)"
| "assignment_ok _ = True"

definition opt_set :: "('v \<Rightarrow> assignment) \<Rightarrow> 'v option \<Rightarrow> assignment list" where
  "opt_set c x = (case x of None \<Rightarrow> [] | Some v \<Rightarrow> [c v])"

text \<open>
  The entries a present status adds (lines 284 to 300): the status, and the read date
  that goes with it unless the request carries that date itself; \<open>now\<close> is the
  repository's own reading of the clock.
\<close>

definition status_parts :: "time \<Rightarrow> UpdateBookRequest \<Rightarrow> assignment list" where
  "status_parts now req =
     (case uStatus req of
        None \<Rightarrow> []
      | Some st \<Rightarrow>
          [Set_status st] @
          (if st = StatusReading \<and> uStartReadDate req = None
           then [Set_start_read_date now] else []) @
          (if (st = StatusCompleted \<or> st = StatusDropped) \<and> uEndReadDate req = None
           then [Set_end_read_date now] else []))"

definition setParts :: "time \<Rightarrow> UpdateBookRequest \<Rightarrow> assignment list" where
  "setParts now req =
     opt_set Set_title (uTitle req) @
     opt_set Set_author (uAuthor req) @
     opt_set Set_isbn (uISBN req) @
     opt_set Set_publisher (uPublisher req) @
     opt_set Set_published_date (uPublishedDate req) @
     opt_set Set_purchase_price (uPurchasePrice req) @
     status_parts now req @
     opt_set Set_start_read_date (uStartReadDate req) @
     opt_set Set_end_read_date (uEndReadDate req) @
     opt_set Set_rating (uRating req) @
     opt_set Set_notes (uNotes req) @
     opt_set Set_tags (uTags req)"

text \<open>
  \<open>UPDATE books SET ... WHERE id = ?\<close>: every row with the id takes the assignments in
  turn; the statement is rejected, and changes nothing, when a row is to be written
  and an assigned column fails its \<open>CHECK\<close>. The trigger \<open>update_books_updated_at\<close>
  then sets \<open>updated_at\<close> of each row written to \<open>CURRENT_TIMESTAMP\<close> (\<open>ts\<close>).
\<close>

definition written_row :: "assignment list \<Rightarrow> time \<Rightarrow> Book \<Rightarrow> Book" where
  "written_row parts ts b = (fold assign parts b)\<lparr>UpdatedAt := ts\<rparr>"

definition exec_update :: "assignment list \<Rightarrow> time \<Rightarrow> int \<Rightarrow> store \<Rightarrow> store option" where
  "exec_update parts ts i s =
     (if list_ex (\<lambda>b. ID b = i) (rows s) \<and> \<not> list_all assignment_ok parts
      then None
      else Some (s\<lparr>rows := map (\<lambda>b. if ID b = i then written_row parts ts b else b) (rows s)\<rparr>))"

definition Update ::
  "time \<Rightarrow> time \<Rightarrow> int \<Rightarrow> UpdateBookRequest \<Rightarrow> store \<Rightarrow> (error + Book) \<times> store" where
  "Update now ts i req s =
     (let parts = setParts now req in
      if parts = [] then (GetByID i s, s)
      else (case exec_update parts ts i s of
              None \<Rightarrow> (Inl UpdateFailed, s)
            | Some s' \<Rightarrow> (GetByID i s', s')))"

subsection \<open>Delete\<close>

definition Delete :: "int \<Rightarrow> store \<Rightarrow> error option \<times> store" where
  "Delete i s =
     (let s' = s\<lparr>rows := filter (\<lambda>b. ID b \<noteq> i) (rows s)\<rparr> in
      if length (rows s) - length (rows s') = 0 then (Some (BookNotFound i), s')
      else (None, s'))"

section \<open>Use cases (internal/usecase/book_usecase.go)\<close>

text \<open>
  The clocks read while one request is served: \<open>time.Now()\<close> in the use case,
  \<open>time.Now()\<close> in the repository's \<open>Update\<close>, and the \<open>CURRENT_TIMESTAMP\<close> of the
  storage engine.
\<close>

record clock =
  usecase_now :: time
  repo_now :: time
  db_now :: time

text \<open>Go's \<open>int\<close> is 64 bits wide; sums and products wrap around.\<close>

definition wrap64 :: "int \<Rightarrow> int" where
  "wrap64 x = (x + 2 ^ 63) mod 2 ^ 64 - 2 ^ 63"

text \<open>Go's \<open>/\<close> on integers truncates towards zero.\<close>

definition quot :: "int \<Rightarrow> int \<Rightarrow> int" where
  "quot a b = sgn a * sgn b * (\<bar>a\<bar> div \<bar>b\<bar>)"

text \<open>
  The three \<open>validate:"required"\<close> tags of \<open>CreateBookRequest\<close>: a required field
  must differ from the zero value of its type.
\<close>

definition validate_create :: "CreateBookRequest \<Rightarrow> bool" where
  "validate_create req \<longleftrightarrow>
     cTitle req \<noteq> [] \<and> cAuthor req \<noteq> [] \<and> cPurchaseDate req \<noteq> zero_Time"

definition CreateBook ::
  "clock \<Rightarrow> CreateBookRequest \<Rightarrow> store \<Rightarrow> (error + Book) \<times> store" where
  "CreateBook clk req s =
     (if \<not> validate_create req then (Inl InvalidInput, s)
      else if instant (cPurchaseDate req) > usecase_now clk then (Inl FuturePurchaseDate, s)
      else Create (db_now clk) req s)"

definition GetBook :: "int \<Rightarrow> store \<Rightarrow> error + Book" where
  "GetBook i s = (if i \<le> 0 then Inl (InvalidBookID i) else GetByID i s)"

definition ListBooks ::
  "engine \<Rightarrow> BookFilter option \<Rightarrow> int \<Rightarrow> int \<Rightarrow> store \<Rightarrow> error + Book list \<times> int" where
  "ListBooks eng flt page limit s =
     (let page1 = (if page < 1 then 1 else page);
          limit1 = (if limit < 1 \<or> limit > 100 then 20 else limit);
          offset = wrap64 ((page1 - 1) * limit1)
      in case run_List eng flt limit1 offset s of
           Inl e \<Rightarrow> Inl e
         | Inr books \<Rightarrow>
             (case run_Count eng flt s of
                Inl e \<Rightarrow> Inl e
              | Inr total_count \<Rightarrow> Inr (books, total_count)))"

text \<open>The test \<open>rating != nil && (*rating < 1 || *rating > 5)\<close> and its error.\<close>

definition rating_error :: "int option \<Rightarrow> error option" where
  "rating_error rating =
     (case rating of
        None \<Rightarrow> None
      | Some r \<Rightarrow> if r < 1 \<or> r > 5 then Some (RatingOutOfRange r) else None)"

definition UpdateBook ::
  "clock \<Rightarrow> int \<Rightarrow> UpdateBookRequest \<Rightarrow> store \<Rightarrow> (error + Book) \<times> store" where
  "UpdateBook clk i req s =
     (if i \<le> 0 then (Inl (InvalidBookID i), s)
      else case GetByID i s of
        Inl e \<Rightarrow> (Inl e, s)
      | Inr _ \<Rightarrow>
          (case rating_error (uRating req) of
             Some e \<Rightarrow> (Inl e, s)
           | None \<Rightarrow> Update (repo_now clk) (db_now clk) i req s))"

definition DeleteBook :: "int \<Rightarrow> store \<Rightarrow> error option \<times> store" where
  "DeleteBook i s =
     (if i \<le> 0 then (Some (InvalidBookID i), s)
      else case GetByID i s of
        Inl e \<Rightarrow> (Some e, s)
      | Inr _ \<Rightarrow> Delete i s)"

definition StartReading :: "clock \<Rightarrow> int \<Rightarrow> store \<Rightarrow> (error + Book) \<times> store" where
  "StartReading clk i s =
     (if i \<le> 0 then (Inl (InvalidBookID i), s)
      else case GetByID i s of
        Inl e \<Rightarrow> (Inl e, s)
      | Inr book \<Rightarrow>
          if Status book = StatusReading then (Inl AlreadyReading, s)
          else if Status book = StatusCompleted then (Inl AlreadyCompleted, s)
          else Update (repo_now clk) (db_now clk) i
                 (no_update\<lparr>uStatus := Some StatusReading,
                            uStartReadDate := Some (usecase_now clk)\<rparr>) s)"

definition FinishReading ::
  "clock \<Rightarrow> int \<Rightarrow> int option \<Rightarrow> store \<Rightarrow> (error + Book) \<times> store" where
  "FinishReading clk i rating s =
     (if i \<le> 0 then (Inl (InvalidBookID i), s)
      else case GetByID i s of
        Inl e \<Rightarrow> (Inl e, s)
      | Inr book \<Rightarrow>
          if Status book \<noteq> StatusReading then (Inl NotReading, s)
          else case rating_error rating of
                 Some e \<Rightarrow> (Inl e, s)
               | None \<Rightarrow>
                   Update (repo_now clk) (db_now clk) i
                     (no_update\<lparr>uStatus := Some StatusCompleted,
                                uEndReadDate := Some (usecase_now clk),
                                uRating := rating\<rparr>) s)"

subsection \<open>GetStatistics\<close>

text \<open>
  \<open>AverageRating\<close> is the exact quotient, of which Go keeps the nearest \<open>float64\<close>.
\<close>

record BookStatistics =
  TotalBooks :: int
  NotStartedBooks :: int
  ReadingBooks :: int
  CompletedBooks :: int
  DroppedBooks :: int
  TotalSpent :: int
  AverageRating :: "rat option"
  BooksThisMonth :: int
  CompletedThisMonth :: int

text \<open>The five running totals of the loop over all books, and one turn of the loop.\<close>

record tally =
  totalSpent :: int
  ratingSum :: int
  ratingCount :: int
  booksThisMonth :: int
  completedThisMonth :: int

definition tally_book :: "time \<Rightarrow> Book \<Rightarrow> tally \<Rightarrow> tally" where
  "tally_book thisMonthStart book t =
     \<lparr>totalSpent = wrap64 (totalSpent t + PurchasePrice book),
      ratingSum = (case Rating book of None \<Rightarrow> ratingSum t
                   | Some r \<Rightarrow> wrap64 (ratingSum t + r)),
      ratingCount = (case Rating book of None \<Rightarrow> ratingCount t
                     | Some r \<Rightarrow> ratingCount t + 1),
      booksThisMonth =
        (if PurchaseDate book \<ge> thisMonthStart then booksThisMonth t + 1
         else booksThisMonth t),
      completedThisMonth =
        (if (case EndReadDate book of None \<Rightarrow> False | Some e \<Rightarrow> e \<ge> thisMonthStart)
            \<and> Status book = StatusCompleted
         then completedThisMonth t + 1 else completedThisMonth t)\<rparr>"

definition status_filter :: "ReadingStatus \<Rightarrow> BookFilter option" where
  "status_filter st = Some (no_filter\<lparr>fStatus := Some st\<rparr>)"

text \<open>
  The queries of \<open>GetStatistics\<close> carry no pattern; they are taken to be answered.
\<close>

text \<open>
  \<open>month_start\<close> stands for \<open>time.Date(now.Year(), now.Month(), 1, 0, 0, 0, 0,
  now.Location())\<close>, the calendar computation of the \<open>time\<close> package.
\<close>

definition GetStatistics ::
  "engine \<Rightarrow> (time \<Rightarrow> time) \<Rightarrow> clock \<Rightarrow> store \<Rightarrow> error + BookStatistics" where
  "GetStatistics eng month_start clk s =
     (let total_count = Count eng None s;
          allBooks = List eng None 0 0 s;
          thisMonthStart = month_start (usecase_now clk);
          t = fold (tally_book thisMonthStart) allBooks
                \<lparr>totalSpent = 0, ratingSum = 0, ratingCount = 0,
                 booksThisMonth = 0, completedThisMonth = 0\<rparr>
      in Inr \<lparr>TotalBooks = total_count,
              NotStartedBooks = Count eng (status_filter StatusNotStarted) s,
              ReadingBooks = Count eng (status_filter StatusReading) s,
              CompletedBooks = Count eng (status_filter StatusCompleted) s,
              DroppedBooks = Count eng (status_filter StatusDropped) s,
              TotalSpent = totalSpent t,
              AverageRating =
                (if ratingCount t > 0
                 then Some (of_int (ratingSum t) / of_int (ratingCount t)) else None),
              BooksThisMonth = booksThisMonth t,
              CompletedThisMonth = completedThisMonth t\<rparr>)"

section \<open>Handlers (internal/handler/book_handler.go)\<close>

text \<open>
  The handlers are the methods of \<open>BookHandler\<close>; \<open>h_CreateBook\<close> is
  \<open>h.CreateBook\<close>, and so on.
\<close>

text \<open>
  A handler receives what the router and the decoders made of the request: the
  result of \<open>strconv.Atoi\<close> on the path parameter and of the JSON decoder on the body,
  \<open>None\<close> when they returned an error. It answers with a status code and a payload.
\<close>

datatype failure = BadID | BadBody | Failed error

record ListBooksResponse =
  Books :: "Book list"
  Total :: int
  Page :: int
  Limit :: int
  TotalPages :: int

datatype payload =
    ErrorResponse failure
  | BookData Book
  | ListData ListBooksResponse
  | StatsData BookStatistics
  | NoData

type_synonym response = "nat \<times> payload"

definition StatusOK :: nat where "StatusOK = 200"
definition StatusCreated :: nat where "StatusCreated = 201"
definition StatusBadRequest :: nat where "StatusBadRequest = 400"
definition StatusNotFound :: nat where "StatusNotFound = 404"
definition StatusInternalServerError :: nat where "StatusInternalServerError = 500"

definition h_CreateBook ::
  "clock \<Rightarrow> CreateBookRequest option \<Rightarrow> store \<Rightarrow> response \<times> store" where
  "h_CreateBook clk body s =
     (case body of
        None \<Rightarrow> ((StatusBadRequest, ErrorResponse BadBody), s)
      | Some req \<Rightarrow>
          (case CreateBook clk req s of
             (Inl e, s') \<Rightarrow> ((StatusBadRequest, ErrorResponse (Failed e)), s')
           | (Inr book, s') \<Rightarrow> ((StatusCreated, BookData book), s')))"

definition h_GetBook :: "int option \<Rightarrow> store \<Rightarrow> response \<times> store" where
  "h_GetBook idp s =
     (case idp of
        None \<Rightarrow> ((StatusBadRequest, ErrorResponse BadID), s)
      | Some i \<Rightarrow>
          (case GetBook i s of
             Inl e \<Rightarrow> ((StatusNotFound, ErrorResponse (Failed e)), s)
           | Inr book \<Rightarrow> ((StatusOK, BookData book), s)))"

text \<open>
  The query of \<open>ListBooks\<close>: \<open>qPage\<close> and \<open>qLimit\<close> are what \<open>strconv.Atoi\<close> returned
  (0 on error), a string parameter is empty when missing, and \<open>qRating\<close> is the parsed
  rating, \<open>None\<close> when the parameter is empty or no number.
\<close>

record ListQuery =
  qPage :: int
  qLimit :: int
  qStatus :: string
  qAuthor :: string
  qPublisher :: string
  qTag :: string
  qSearch :: string
  qRating :: "int option"

definition nonempty :: "string \<Rightarrow> string option" where
  "nonempty x = (if x \<noteq> [] then Some x else None)"

text \<open>The page, the limit and the filter that \<open>ListBooks\<close> makes of the query.\<close>

definition query_page :: "ListQuery \<Rightarrow> int" where
  "query_page q = (if qPage q < 1 then 1 else qPage q)"

definition query_limit :: "ListQuery \<Rightarrow> int" where
  "query_limit q = (if qLimit q < 1 \<or> qLimit q > 100 then 20 else qLimit q)"

definition query_filter :: "ListQuery \<Rightarrow> BookFilter" where
  "query_filter q =
     \<lparr>fStatus = nonempty (qStatus q), fAuthor = nonempty (qAuthor q),
      fPublisher = nonempty (qPublisher q), fTag = nonempty (qTag q),
      fRating = (case qRating q of
                   None \<Rightarrow> None
                 | Some r \<Rightarrow> if r \<ge> 1 \<and> r \<le> 5 then Some r else None),
      fSearch = nonempty (qSearch q)\<rparr>"

definition h_ListBooks :: "engine \<Rightarrow> ListQuery \<Rightarrow> store \<Rightarrow> response \<times> store" where
  "h_ListBooks eng q s =
     (let page = query_page q;
          limit = query_limit q;
          flt = query_filter q
      in case ListBooks eng (Some flt) page limit s of
           Inl e \<Rightarrow> ((StatusInternalServerError, ErrorResponse (Failed e)), s)
         | Inr (books, total_count) \<Rightarrow>
             ((StatusOK,
               ListData \<lparr>Books = books, Total = total_count, Page = page, Limit = limit,
                         TotalPages = quot (wrap64 (wrap64 (total_count + limit) - 1)) limit\<rparr>),
              s))"

definition h_UpdateBook ::
  "clock \<Rightarrow> int option \<Rightarrow> UpdateBookRequest option \<Rightarrow> store \<Rightarrow> response \<times> store" where
  "h_UpdateBook clk idp body s =
     (case idp of
        None \<Rightarrow> ((StatusBadRequest, ErrorResponse BadID), s)
      | Some i \<Rightarrow>
          (case body of
             None \<Rightarrow> ((StatusBadRequest, ErrorResponse BadBody), s)
           | Some req \<Rightarrow>
               (case UpdateBook clk i req s of
                  (Inl e, s') \<Rightarrow> ((StatusBadRequest, ErrorResponse (Failed e)), s')
                | (Inr book, s') \<Rightarrow> ((StatusOK, BookData book), s'))))"

definition h_DeleteBook :: "int option \<Rightarrow> store \<Rightarrow> response \<times> store" where
  "h_DeleteBook idp s =
     (case idp of
        None \<Rightarrow> ((StatusBadRequest, ErrorResponse BadID), s)
      | Some i \<Rightarrow>
          (case DeleteBook i s of
             (Some e, s') \<Rightarrow> ((StatusNotFound, ErrorResponse (Failed e)), s')
           | (None, s') \<Rightarrow> ((StatusOK, NoData), s')))"

definition h_StartReading :: "clock \<Rightarrow> int option \<Rightarrow> store \<Rightarrow> response \<times> store" where
  "h_StartReading clk idp s =
     (case idp of
        None \<Rightarrow> ((StatusBadRequest, ErrorResponse BadID), s)
      | Some i \<Rightarrow>
          (case StartReading clk i s of
             (Inl e, s') \<Rightarrow> ((StatusBadRequest, ErrorResponse (Failed e)), s')
           | (Inr book, s') \<Rightarrow> ((StatusOK, BookData book), s')))"

text \<open>
  The body of \<open>FinishReading\<close> is decoded only when the request has one; \<open>body\<close> is
  the rating so obtained, \<open>None\<close> for a body that does not decode.
\<close>

definition h_FinishReading ::
  "clock \<Rightarrow> int option \<Rightarrow> int option option \<Rightarrow> store \<Rightarrow> response \<times> store" where
  "h_FinishReading clk idp body s =
     (case idp of
        None \<Rightarrow> ((StatusBadRequest, ErrorResponse BadID), s)
      | Some i \<Rightarrow>
          (case body of
             None \<Rightarrow> ((StatusBadRequest, ErrorResponse BadBody), s)
           | Some rating \<Rightarrow>
               (case FinishReading clk i rating s of
                  (Inl e, s') \<Rightarrow> ((StatusBadRequest, ErrorResponse (Failed e)), s')
                | (Inr book, s') \<Rightarrow> ((StatusOK, BookData book), s'))))"

definition h_GetStatistics ::
  "engine \<Rightarrow> (time \<Rightarrow> time) \<Rightarrow> clock \<Rightarrow> store \<Rightarrow> response \<times> store" where
  "h_GetStatistics eng month_start clk s =
     (case GetStatistics eng month_start clk s of
        Inl e \<Rightarrow> ((StatusInternalServerError, ErrorResponse (Failed e)), s)
      | Inr stats \<Rightarrow> ((StatusOK, StatsData stats), s))"

text \<open>
  The status the specification gives to each kind of error: the client-error class,
  the not-found class, the server-error class.
\<close>

fun status_of_kind :: "error_kind \<Rightarrow> nat" where
  "status_of_kind NotFound = StatusNotFound"
| "status_of_kind Unclassified = StatusInternalServerError"
| "status_of_kind _ = StatusBadRequest"

section \<open>Auxiliary notions for the proofs\<close>

text \<open>The value a column has after an optional assignment: the new one if there is one.\<close>

definition coalesce :: "'a option \<Rightarrow> 'a \<Rightarrow> 'a" where
  "coalesce x d = (case x of None \<Rightarrow> d | Some v \<Rightarrow> v)"

text \<open>The read dates that \<open>Update\<close> stamps by itself, if any.\<close>

definition stamp_start :: "time \<Rightarrow> UpdateBookRequest \<Rightarrow> time option option" where
  "stamp_start now req =
     (if uStatus req = Some StatusReading \<and> uStartReadDate req = None
      then Some (Some now) else None)"

definition stamp_end :: "time \<Rightarrow> UpdateBookRequest \<Rightarrow> time option option" where
  "stamp_end now req =
     (if (uStatus req = Some StatusCompleted \<or> uStatus req = Some StatusDropped)
         \<and> uEndReadDate req = None
      then Some (Some now) else None)"

text \<open>The table after the rows with id \<open>i\<close> have been rewritten by \<open>g\<close>.\<close>

definition rewrite_rows :: "int \<Rightarrow> (Book \<Rightarrow> Book) \<Rightarrow> store \<Rightarrow> store" where
  "rewrite_rows i g s = s\<lparr>rows := map (\<lambda>b. if ID b = i then g b else b) (rows s)\<rparr>"

section \<open>Example data\<close>

text \<open>Two requests served at different times, and the first book of an empty table.\<close>

definition example_clock :: clock where
  "example_clock = \<lparr>usecase_now = 1000, repo_now = 1001, db_now = 1002\<rparr>"

definition later_clock :: clock where
  "later_clock = \<lparr>usecase_now = 2000, repo_now = 2001, db_now = 2002\<rparr>"

definition example_request :: CreateBookRequest where
  "example_request =
     \<lparr>cTitle = ''A'', cAuthor = ''B'', cISBN = [], cPublisher = [], cPublishedDate = None,
      cPurchaseDate = \<lparr>instant = 500, located = False\<rparr>, cPurchasePrice = 3500,
      cTags = [], cNotes = []\<rparr>"

definition example_book :: Book where
  "example_book =
     \<lparr>ID = 1, Title = ''A'', Author = ''B'', ISBN = [], Publisher = [], PublishedDate = None,
      PurchaseDate = 500, PurchasePrice = 3500, Status = StatusNotStarted,
      StartReadDate = None, EndReadDate = None, Rating = None, Notes = [], Tags = [],
      CreatedAt = 1002, UpdatedAt = 1002\<rparr>"

definition one_book_store :: store where
  "one_book_store = \<lparr>rows = [example_book], seq = 1\<rparr>"

text \<open>The example book once its reading has started, at the later time.\<close>

definition reading_book :: Book where
  "reading_book =
     example_book\<lparr>Status := StatusReading, StartReadDate := Some 2000, UpdatedAt := 2002\<rparr>"

definition reading_store :: store where
  "reading_store = \<lparr>rows = [reading_book], seq = 1\<rparr>"

text \<open>The book rated while it is being read.\<close>

definition rated_reading_book :: Book where
  "rated_reading_book = reading_book\<lparr>Rating := Some 3\<rparr>"

definition rated_reading_store :: store where
  "rated_reading_store = \<lparr>rows = [rated_reading_book], seq = 1\<rparr>"

text \<open>
  A storage engine in the manner of SQLite. It sorts stably. Its \<open>LIKE\<close> works on
  bytes: \<open>%\<close> matches any sequence, \<open>_\<close> any one byte, and ASCII letters match in
  either case (SQLite's \<open>_\<close> matches one UTF-8 character; on ASCII text the two
  agree). It fails on a query over a table with rows when a \<open>LIKE\<close> pattern has more
  than 50000 bytes.
\<close>

definition ascii_lower :: "char \<Rightarrow> char" where
  "ascii_lower c =
     (case map_of (zip ''ABCDEFGHIJKLMNOPQRSTUVWXYZ'' ''abcdefghijklmnopqrstuvwxyz'') c of
        None \<Rightarrow> c
      | Some l \<Rightarrow> l)"

fun like_match :: "string \<Rightarrow> string \<Rightarrow> bool" where
  "like_match [] v = (v = [])"
| "like_match (p # ps) v =
     (if p = CHR ''%''
      then like_match ps v \<or> (case v of [] \<Rightarrow> False | c # cs \<Rightarrow> like_match (p # ps) cs)
      else (case v of
              [] \<Rightarrow> False
            | c # cs \<Rightarrow> (p = CHR ''_'' \<or> ascii_lower p = ascii_lower c) \<and> like_match ps cs))"

fun too_complex :: "condition \<Rightarrow> bool" where
  "too_complex (Tags_like p) = (length p > 50000)"
| "too_complex (Title_or_author_like p) = (length p > 50000)"
| "too_complex _ = False"

definition stable_engine :: engine where
  "stable_engine =
     \<lparr>order_by = sort_key (\<lambda>b. - CreatedAt b), like = (\<lambda>v p. like_match p v),
      fails = (\<lambda>conds bs. bs \<noteq> [] \<and> list_ex too_complex conds)\<rparr>"

text \<open>A query with a tag of 49999 characters, and one with the tag \<open>go\<close>.\<close>

definition no_query :: ListQuery where
  "no_query = \<lparr>qPage = 0, qLimit = 0, qStatus = [], qAuthor = [], qPublisher = [],
     qTag = [], qSearch = [], qRating = None\<rparr>"

definition long_tag_query :: ListQuery where
  "long_tag_query = no_query\<lparr>qTag := replicate 49999 (CHR ''a'')\<rparr>"

definition tag_query :: ListQuery where
  "tag_query = no_query\<lparr>qTag := ''go''\<rparr>"

text \<open>A second book, created in the same second as the first.\<close>

definition second_book :: Book where
  "second_book = example_book\<lparr>ID := 2, Title := ''D'', Tags := ''go,web''\<rparr>"

definition two_book_store :: store where
  "two_book_store = \<lparr>rows = [example_book, second_book], seq = 2\<rparr>"

definition mixed_store :: store where
  "mixed_store = \<lparr>rows = [rated_reading_book, second_book], seq = 2\<rparr>"

text \<open>
  Two more books: a third created in the same second as the first two, and a fourth
  created later.
\<close>

definition third_book :: Book where
  "third_book = example_book\<lparr>ID := 3, Title := ''E''\<rparr>"

definition fourth_book :: Book where
  "fourth_book = example_book\<lparr>ID := 4, Title := ''F'', CreatedAt := 1500, UpdatedAt := 1500\<rparr>"

definition four_book_store :: store where
  "four_book_store = \<lparr>rows = [example_book, second_book, third_book, fourth_book], seq = 4\<rparr>"

section \<open>Properties of the repository\<close>

lemma status_constants_distinct:
  "StatusNotStarted \<noteq> StatusReading" "StatusNotStarted \<noteq> StatusCompleted"
  "StatusNotStarted \<noteq> StatusDropped" "StatusReading \<noteq> StatusCompleted"
  "StatusReading \<noteq> StatusDropped" "StatusCompleted \<noteq> StatusDropped"
  "StatusReading \<noteq> StatusNotStarted" "StatusCompleted \<noteq> StatusNotStarted"
  "StatusDropped \<noteq> StatusNotStarted" "StatusCompleted \<noteq> StatusReading"
  "StatusDropped \<noteq> StatusReading" "StatusDropped \<noteq> StatusCompleted"
  by (simp_all add: StatusNotStarted_def StatusReading_def StatusCompleted_def
        StatusDropped_def)

lemma status_check_constants:
  "status_check StatusNotStarted" "status_check StatusReading"
  "status_check StatusCompleted" "status_check StatusDropped"
  by (simp_all add: status_check_def)

lemma GetByID_found:
  assumes "GetByID i s = Inr b"
  shows "ID b = i" and "b \<in> set (rows s)"
proof -
  from assms have f: "find (\<lambda>r. ID r = i) (rows s) = Some b"
    by (simp add: GetByID_def split: option.splits)
  then obtain k where "k < length (rows s)" "ID (rows s ! k) = i" "b = rows s ! k"
    unfolding find_Some_iff by blast
  then show "ID b = i" and "b \<in> set (rows s)" by simp_all
qed

lemma GetByID_missing:
  assumes "GetByID i s = Inl e"
  shows "e = BookNotFound i" and "\<not> list_ex (\<lambda>b. ID b = i) (rows s)"
  using assms by (simp_all add: GetByID_def find_None_iff list_ex_iff split: option.splits)

lemma find_rewritten:
  assumes "\<And>b. ID (g b) = ID b"
  shows "find (\<lambda>b. ID b = i) (map (\<lambda>b. if ID b = i then g b else b) xs)
         = map_option g (find (\<lambda>b. ID b = i) xs)"
  by (induction xs) (simp_all add: assms)

lemma GetByID_rewrite_rows:
  assumes "\<And>b. ID (g b) = ID b" and "GetByID i s = Inr b"
  shows "GetByID i (rewrite_rows i g s) = Inr (g b)"
proof -
  from assms(2) have "find (\<lambda>r. ID r = i) (rows s) = Some b"
    by (simp add: GetByID_def split: option.splits)
  then show ?thesis
    by (simp add: GetByID_def rewrite_rows_def find_rewritten [of g, OF assms(1)])
qed

lemma ID_assign: "ID (assign a b) = ID b"
  by (cases a) simp_all

lemma ID_fold_assign: "ID (fold assign ps b) = ID b"
  by (induction ps arbitrary: b) (simp_all add: ID_assign)

lemma ID_written_row: "ID (written_row ps ts b) = ID b"
  by (simp add: written_row_def ID_fold_assign)

subsection \<open>What the SET clause does to a row\<close>

lemma fold_opt_set:
  "fold assign (opt_set Set_title x1) b = b\<lparr>Title := coalesce x1 (Title b)\<rparr>"
  "fold assign (opt_set Set_author x2) b = b\<lparr>Author := coalesce x2 (Author b)\<rparr>"
  "fold assign (opt_set Set_isbn x3) b = b\<lparr>ISBN := coalesce x3 (ISBN b)\<rparr>"
  "fold assign (opt_set Set_publisher x4) b = b\<lparr>Publisher := coalesce x4 (Publisher b)\<rparr>"
  "fold assign (opt_set Set_published_date x5) b =
     b\<lparr>PublishedDate := coalesce (map_option Some x5) (PublishedDate b)\<rparr>"
  "fold assign (opt_set Set_purchase_price x6) b =
     b\<lparr>PurchasePrice := coalesce x6 (PurchasePrice b)\<rparr>"
  "fold assign (opt_set Set_start_read_date x7) b =
     b\<lparr>StartReadDate := coalesce (map_option Some x7) (StartReadDate b)\<rparr>"
  "fold assign (opt_set Set_end_read_date x8) b =
     b\<lparr>EndReadDate := coalesce (map_option Some x8) (EndReadDate b)\<rparr>"
  "fold assign (opt_set Set_rating x9) b =
     b\<lparr>Rating := coalesce (map_option Some x9) (Rating b)\<rparr>"
  "fold assign (opt_set Set_notes x10) b = b\<lparr>Notes := coalesce x10 (Notes b)\<rparr>"
  "fold assign (opt_set Set_tags x11) b = b\<lparr>Tags := coalesce x11 (Tags b)\<rparr>"
  by (simp_all add: opt_set_def coalesce_def split: option.splits)

lemma fold_status_parts:
  "fold assign (status_parts now req) b =
     b\<lparr>Status := coalesce (uStatus req) (Status b),
       StartReadDate := coalesce (stamp_start now req) (StartReadDate b),
       EndReadDate := coalesce (stamp_end now req) (EndReadDate b)\<rparr>"
proof (cases "uStatus req")
  case None
  then show ?thesis
    by (simp add: status_parts_def coalesce_def stamp_start_def stamp_end_def)
next
  case (Some st)
  then show ?thesis
    by (simp add: status_parts_def coalesce_def stamp_start_def stamp_end_def)
qed

lemma fold_setParts:
  "fold assign (setParts now req) b =
     b\<lparr>Title := coalesce (uTitle req) (Title b),
       Author := coalesce (uAuthor req) (Author b),
       ISBN := coalesce (uISBN req) (ISBN b),
       Publisher := coalesce (uPublisher req) (Publisher b),
       PublishedDate := coalesce (map_option Some (uPublishedDate req)) (PublishedDate b),
       PurchasePrice := coalesce (uPurchasePrice req) (PurchasePrice b),
       Status := coalesce (uStatus req) (Status b),
       StartReadDate :=
         coalesce (map_option Some (uStartReadDate req))
           (coalesce (stamp_start now req) (StartReadDate b)),
       EndReadDate :=
         coalesce (map_option Some (uEndReadDate req))
           (coalesce (stamp_end now req) (EndReadDate b)),
       Rating := coalesce (map_option Some (uRating req)) (Rating b),
       Notes := coalesce (uNotes req) (Notes b),
       Tags := coalesce (uTags req) (Tags b)\<rparr>"
  by (simp add: setParts_def fold_opt_set fold_status_parts)

lemma setParts_no_update: "setParts now no_update = []"
  by (simp add: setParts_def no_update_def opt_set_def status_parts_def)

lemma opt_set_empty: "opt_set c x = [] \<longleftrightarrow> x = None"
  by (simp add: opt_set_def split: option.splits)

lemma status_parts_empty: "status_parts now req = [] \<longleftrightarrow> uStatus req = None"
  by (cases "uStatus req") (simp_all add: status_parts_def)

lemma no_update_iff:
  "req = no_update \<longleftrightarrow>
     uTitle req = None \<and> uAuthor req = None \<and> uISBN req = None \<and> uPublisher req = None \<and>
     uPublishedDate req = None \<and> uPurchasePrice req = None \<and> uStatus req = None \<and>
     uStartReadDate req = None \<and> uEndReadDate req = None \<and> uRating req = None \<and>
     uNotes req = None \<and> uTags req = None"
  by (cases req) (simp add: no_update_def)

lemma setParts_empty_iff: "setParts now req = [] \<longleftrightarrow> req = no_update"
  by (simp add: setParts_def opt_set_empty status_parts_empty no_update_iff)

lemma setParts_empty_any: "setParts n1 req = [] \<longleftrightarrow> setParts n2 req = []"
  by (simp add: setParts_empty_iff)

lemma assignment_ok_opt_set:
  "list_all assignment_ok (opt_set Set_title x1)"
  "list_all assignment_ok (opt_set Set_author x2)"
  "list_all assignment_ok (opt_set Set_isbn x3)"
  "list_all assignment_ok (opt_set Set_publisher x4)"
  "list_all assignment_ok (opt_set Set_published_date x5)"
  "list_all assignment_ok (opt_set Set_purchase_price x6)"
  "list_all assignment_ok (opt_set Set_start_read_date x7)"
  "list_all assignment_ok (opt_set Set_end_read_date x8)"
  "list_all assignment_ok (opt_set Set_rating x9) = rating_check x9"
  "list_all assignment_ok (opt_set Set_notes x10)"
  "list_all assignment_ok (opt_set Set_tags x11)"
  by (simp_all add: opt_set_def rating_check_def split: option.splits)

lemma assignment_ok_status_parts:
  "list_all assignment_ok (status_parts now req) =
     (case uStatus req of None \<Rightarrow> True | Some st \<Rightarrow> status_check st)"
  by (cases "uStatus req") (simp_all add: status_parts_def)

lemma assignment_ok_setParts:
  "list_all assignment_ok (setParts now req) \<longleftrightarrow>
     (case uStatus req of None \<Rightarrow> True | Some st \<Rightarrow> status_check st) \<and>
     rating_check (uRating req)"
  by (simp add: setParts_def assignment_ok_opt_set assignment_ok_status_parts)

lemma assignment_ok_any:
  "list_all assignment_ok (setParts n1 req) \<longleftrightarrow> list_all assignment_ok (setParts n2 req)"
  by (simp add: assignment_ok_setParts)

lemma written_row_start:
  "written_row (setParts now (no_update\<lparr>uStatus := Some StatusReading, uStartReadDate := Some t\<rparr>)) ts b
     = b\<lparr>Status := StatusReading, StartReadDate := Some t, UpdatedAt := ts\<rparr>"
  by (simp add: written_row_def fold_setParts no_update_def coalesce_def stamp_start_def
        stamp_end_def status_constants_distinct)

lemma written_row_finish:
  "rating_check rating \<Longrightarrow>
   written_row (setParts now (no_update\<lparr>uStatus := Some StatusCompleted, uEndReadDate := Some t,
                                       uRating := rating\<rparr>)) ts b
     = b\<lparr>Status := StatusCompleted, EndReadDate := Some t,
         Rating := (case rating of None \<Rightarrow> Rating b | Some r \<Rightarrow> Some r), UpdatedAt := ts\<rparr>"
  by (cases rating)
     (simp_all add: written_row_def fold_setParts no_update_def coalesce_def stamp_start_def
        stamp_end_def status_constants_distinct)

lemma written_row_rating:
  "written_row (setParts now (no_update\<lparr>uRating := Some r\<rparr>)) ts b
     = b\<lparr>Rating := Some r, UpdatedAt := ts\<rparr>"
  by (simp add: written_row_def fold_setParts no_update_def coalesce_def stamp_start_def
        stamp_end_def)

subsection \<open>Update\<close>

lemma exec_update_found:
  assumes "GetByID i s = Inr b" and "list_all assignment_ok parts"
  shows "exec_update parts ts i s = Some (rewrite_rows i (written_row parts ts) s)"
  using assms by (simp add: exec_update_def rewrite_rows_def)

lemma Update_found:
  assumes "GetByID i s = Inr b" and "setParts now req \<noteq> []"
    and "list_all assignment_ok (setParts now req)"
  shows "Update now ts i req s =
           (Inr (written_row (setParts now req) ts b),
            rewrite_rows i (written_row (setParts now req) ts) s)"
  using assms
  by (simp add: Update_def Let_def exec_update_found [OF assms(1,3)]
        GetByID_rewrite_rows [OF ID_written_row assms(1)])

lemma Update_rejected:
  assumes "GetByID i s = Inr b" and "\<not> list_all assignment_ok (setParts now req)"
  shows "Update now ts i req s = (Inl UpdateFailed, s)"
proof -
  from assms(1) have "list_ex (\<lambda>r. ID r = i) (rows s)"
    using GetByID_found [OF assms(1)] by (auto simp: list_ex_iff)
  moreover from assms(2) have "setParts now req \<noteq> []" by auto
  ultimately show ?thesis using assms(2)
    by (simp add: Update_def Let_def exec_update_def)
qed

lemma Update_nothing:
  assumes "setParts now req = []"
  shows "Update now ts i req s = (GetByID i s, s)"
  using assms by (simp add: Update_def Let_def)

lemma Update_success:
  assumes "GetByID i s = Inr b0" and "req \<noteq> no_update"
    and "Update n1 t1 i req s = (Inr b1, s1)"
  shows "list_all assignment_ok (setParts n1 req)"
    and "b1 = written_row (setParts n1 req) t1 b0"
    and "s1 = rewrite_rows i (written_row (setParts n1 req) t1) s"
    and "GetByID i s1 = Inr b1"
proof -
  have ne1: "setParts n1 req \<noteq> []"
    using assms(2) by (simp add: setParts_empty_iff)
  show ok1: "list_all assignment_ok (setParts n1 req)"
  proof (rule ccontr)
    assume "\<not> list_all assignment_ok (setParts n1 req)"
    from Update_rejected [OF assms(1) this] assms(3) show False by simp
  qed
  from Update_found [OF assms(1) ne1 ok1, of t1] assms(3)
  show b1: "b1 = written_row (setParts n1 req) t1 b0"
    and s1: "s1 = rewrite_rows i (written_row (setParts n1 req) t1) s"
    by simp_all
  show "GetByID i s1 = Inr b1"
    unfolding s1 b1 by (rule GetByID_rewrite_rows [OF ID_written_row assms(1)])
qed

lemma Update_start:
  assumes "GetByID i s = Inr b"
  shows "Update now ts i (no_update\<lparr>uStatus := Some StatusReading, uStartReadDate := Some t\<rparr>) s =
           (Inr (b\<lparr>Status := StatusReading, StartReadDate := Some t, UpdatedAt := ts\<rparr>),
            rewrite_rows i (\<lambda>r. r\<lparr>Status := StatusReading, StartReadDate := Some t,
                                  UpdatedAt := ts\<rparr>) s)"
proof -
  let ?req = "no_update\<lparr>uStatus := Some StatusReading, uStartReadDate := Some t\<rparr>"
  have ne: "setParts now ?req \<noteq> []"
    by (simp add: setParts_empty_iff no_update_iff)
  have ok: "list_all assignment_ok (setParts now ?req)"
    by (simp add: assignment_ok_setParts status_check_constants rating_check_def no_update_def)
  have w: "written_row (setParts now ?req) ts =
             (\<lambda>r. r\<lparr>Status := StatusReading, StartReadDate := Some t, UpdatedAt := ts\<rparr>)"
    by (rule ext) (rule written_row_start)
  show ?thesis
    using Update_found [OF assms ne ok, of ts] by (simp add: w)
qed

lemma Update_finish:
  assumes "GetByID i s = Inr b" and "rating_check rating"
  shows "Update now ts i (no_update\<lparr>uStatus := Some StatusCompleted, uEndReadDate := Some t,
                                    uRating := rating\<rparr>) s =
           (Inr (b\<lparr>Status := StatusCompleted, EndReadDate := Some t,
                   Rating := (case rating of None \<Rightarrow> Rating b | Some r \<Rightarrow> Some r),
                   UpdatedAt := ts\<rparr>),
            rewrite_rows i (\<lambda>r. r\<lparr>Status := StatusCompleted, EndReadDate := Some t,
                   Rating := (case rating of None \<Rightarrow> Rating r | Some x \<Rightarrow> Some x),
                   UpdatedAt := ts\<rparr>) s)"
proof -
  let ?req = "no_update\<lparr>uStatus := Some StatusCompleted, uEndReadDate := Some t,
                         uRating := rating\<rparr>"
  have ne: "setParts now ?req \<noteq> []"
    by (simp add: setParts_empty_iff no_update_iff)
  have ok: "list_all assignment_ok (setParts now ?req)"
    using assms(2) by (simp add: assignment_ok_setParts status_check_constants)
  have w: "written_row (setParts now ?req) ts =
             (\<lambda>r. r\<lparr>Status := StatusCompleted, EndReadDate := Some t,
                   Rating := (case rating of None \<Rightarrow> Rating r | Some x \<Rightarrow> Some x),
                   UpdatedAt := ts\<rparr>)"
    by (rule ext) (rule written_row_finish [OF assms(2)])
  show ?thesis
    using Update_found [OF assms(1) ne ok, of ts] by (simp add: w)
qed

subsection \<open>The same update twice\<close>

lemma coalesce_twice: "coalesce x (coalesce x d) = coalesce x d"
  by (simp add: coalesce_def split: option.splits)

lemma start_twice:
  "coalesce (map_option Some (uStartReadDate req))
     (coalesce (stamp_start n2 req)
        (coalesce (map_option Some (uStartReadDate req)) (coalesce (stamp_start n1 req) d)))
   = coalesce (stamp_start n2 req)
       (coalesce (map_option Some (uStartReadDate req)) (coalesce (stamp_start n1 req) d))"
  by (cases "uStartReadDate req") (simp_all add: coalesce_def stamp_start_def)

lemma end_twice:
  "coalesce (map_option Some (uEndReadDate req))
     (coalesce (stamp_end n2 req)
        (coalesce (map_option Some (uEndReadDate req)) (coalesce (stamp_end n1 req) d)))
   = coalesce (stamp_end n2 req)
       (coalesce (map_option Some (uEndReadDate req)) (coalesce (stamp_end n1 req) d))"
  by (cases "uEndReadDate req") (simp_all add: coalesce_def stamp_end_def)

lemma written_row_twice:
  "written_row (setParts n2 req) t2 (written_row (setParts n1 req) t1 b) =
     (written_row (setParts n1 req) t1 b)
       \<lparr>StartReadDate :=
          coalesce (stamp_start n2 req) (StartReadDate (written_row (setParts n1 req) t1 b)),
        EndReadDate :=
          coalesce (stamp_end n2 req) (EndReadDate (written_row (setParts n1 req) t1 b)),
        UpdatedAt := t2\<rparr>"
  by (simp add: written_row_def fold_setParts coalesce_twice start_twice end_twice)

lemma Update_twice:
  assumes "GetByID i s = Inr b0" and "req \<noteq> no_update"
    and "Update n1 t1 i req s = (Inr b1, s1)"
  shows "fst (Update n2 t2 i req s1) =
           Inr (b1\<lparr>StartReadDate := coalesce (stamp_start n2 req) (StartReadDate b1),
                   EndReadDate := coalesce (stamp_end n2 req) (EndReadDate b1),
                   UpdatedAt := t2\<rparr>)"
proof -
  note first = Update_success [OF assms]
  have ne2: "setParts n2 req \<noteq> []"
    using assms(2) by (simp add: setParts_empty_iff)
  have ok2: "list_all assignment_ok (setParts n2 req)"
    using first(1) assignment_ok_any by blast
  from Update_found [OF first(4) ne2 ok2, of t2] show ?thesis
    by (simp add: first(2) written_row_twice)
qed

subsection \<open>Creating a row\<close>




subsection \<open>Well-formed tables stay well-formed\<close>

lemma wf_store_id_pos:
  assumes "wf_store s" and "GetByID i s = Inr b"
  shows "0 < i"
  using assms(1) GetByID_found [OF assms(2)] by (auto simp: wf_store_def list_all_iff)

lemma wf_store_status:
  assumes "wf_store s" and "GetByID i s = Inr b"
  shows "Status b = StatusNotStarted \<or> Status b = StatusReading \<or>
         Status b = StatusCompleted \<or> Status b = StatusDropped"
  using assms(1) GetByID_found [OF assms(2)]
  by (auto simp: wf_store_def list_all_iff row_ok_def status_check_def)

lemma row_ok_written_row:
  assumes "row_ok b" and "list_all assignment_ok (setParts now req)"
  shows "row_ok (written_row (setParts now req) ts b)"
proof -
  from assms(2) have st: "case uStatus req of None \<Rightarrow> True | Some st \<Rightarrow> status_check st"
    and rt: "rating_check (uRating req)"
    by (simp_all add: assignment_ok_setParts)
  from st assms(1) have "status_check (coalesce (uStatus req) (Status b))"
    by (cases "uStatus req") (simp_all add: coalesce_def row_ok_def)
  moreover from rt assms(1)
  have "rating_check (coalesce (map_option Some (uRating req)) (Rating b))"
    by (cases "uRating req") (simp_all add: coalesce_def row_ok_def)
  ultimately show ?thesis
    by (simp add: row_ok_def written_row_def fold_setParts)
qed

lemma wf_store_rewritten:
  assumes "wf_store s" and "\<And>b. ID (g b) = ID b"
    and "\<And>b. b \<in> set (rows s) \<Longrightarrow> ID b = i \<Longrightarrow> row_ok (g b)"
  shows "wf_store (s\<lparr>rows := map (\<lambda>b. if ID b = i then g b else b) (rows s)\<rparr>)"
proof -
  have "ID \<circ> (\<lambda>b. if ID b = i then g b else b) = ID"
    by (rule ext) (simp add: assms(2))
  then show ?thesis
    using assms by (auto simp: wf_store_def list_all_iff)
qed

lemma wf_store_Update:
  assumes "wf_store s"
  shows "wf_store (snd (Update now ts i req s))"
proof (cases "setParts now req = []")
  case True
  then show ?thesis using assms by (simp add: Update_def Let_def)
next
  case False
  show ?thesis
  proof (cases "list_ex (\<lambda>b. ID b = i) (rows s) \<and> \<not> list_all assignment_ok (setParts now req)")
    case True
    then show ?thesis using assms False by (simp add: Update_def Let_def exec_update_def)
  next
    case no: False
    have "wf_store (s\<lparr>rows := map (\<lambda>b. if ID b = i then written_row (setParts now req) ts b
                                     else b) (rows s)\<rparr>)"
    proof (rule wf_store_rewritten [OF assms ID_written_row])
      fix b assume b: "b \<in> set (rows s)" "ID b = i"
      with no have "list_all assignment_ok (setParts now req)"
        by (auto simp: list_ex_iff)
      moreover from assms b have "row_ok b" by (simp add: wf_store_def list_all_iff)
      ultimately show "row_ok (written_row (setParts now req) ts b)"
        by (rule row_ok_written_row [rotated])
    qed
    then show ?thesis using False no assms by (auto simp: Update_def Let_def exec_update_def)
  qed
qed

lemma wf_store_insert_row:
  assumes "wf_store s"
  shows "wf_store (insert_row ts req s)"
  using assms
  by (auto simp: wf_store_def insert_row_def list_all_iff row_ok_def status_check_def
        rating_check_def)

lemma wf_store_Delete:
  assumes "wf_store s"
  shows "wf_store (snd (Delete i s))"
  using assms by (auto simp: wf_store_def Delete_def Let_def list_all_iff distinct_map_filter)

lemma wf_store_CreateBook: "wf_store s \<Longrightarrow> wf_store (snd (CreateBook clk req s))"
  by (simp add: CreateBook_def Create_def Let_def wf_store_insert_row)

lemma wf_store_UpdateBook: "wf_store s \<Longrightarrow> wf_store (snd (UpdateBook clk i req s))"
  by (simp add: UpdateBook_def wf_store_Update split: sum.splits option.splits)

lemma wf_store_StartReading: "wf_store s \<Longrightarrow> wf_store (snd (StartReading clk i s))"
  by (simp add: StartReading_def wf_store_Update split: sum.splits)

lemma wf_store_FinishReading: "wf_store s \<Longrightarrow> wf_store (snd (FinishReading clk i r s))"
  by (simp add: FinishReading_def wf_store_Update split: sum.splits option.splits)

lemma wf_store_DeleteBook: "wf_store s \<Longrightarrow> wf_store (snd (DeleteBook i s))"
  by (simp add: DeleteBook_def wf_store_Delete split: sum.splits)

subsection \<open>The rating test of the use cases\<close>

lemma rating_error_None: "rating_error rating = None \<longleftrightarrow> rating_check rating"
  by (auto simp: rating_error_def rating_check_def split: option.splits)

lemma rating_error_kind: "rating_error rating = Some e \<Longrightarrow> kind_of e = BusinessRuleError"
  by (auto simp: rating_error_def split: option.splits if_splits)

subsection \<open>List and Count\<close>

lemma conditions_agree: "List_conditions flt = Count_conditions flt"
  by (simp add: List_conditions_def Count_conditions_def)

lemma length_order_by:
  assumes "order_by_ok eng"
  shows "length (order_by eng xs) = length xs"
proof -
  from assms have "mset (order_by eng xs) = mset xs"
    by (simp add: order_by_ok_def)
  then show ?thesis by (rule mset_eq_length)
qed

lemma count_by_status:
  assumes "list_all (\<lambda>b. status_check (Status b)) xs"
  shows "length xs =
           length (filter (\<lambda>b. Status b = StatusNotStarted) xs) +
           length (filter (\<lambda>b. Status b = StatusReading) xs) +
           length (filter (\<lambda>b. Status b = StatusCompleted) xs) +
           length (filter (\<lambda>b. Status b = StatusDropped) xs)"
  using assms
  by (induction xs) (auto simp: status_check_def status_constants_distinct)

lemma Count_all: "Count eng None s = int (length (rows s))"
  by (simp add: Count_def Count_conditions_def where_clause_def)

lemma Count_status:
  "Count eng (status_filter st) s = int (length (filter (\<lambda>b. Status b = st) (rows s)))"
proof -
  have "where_clause eng [Status_eq st] = (\<lambda>b. Status b = st)"
    by (rule ext) (simp add: where_clause_def)
  then show ?thesis
    by (simp add: Count_def Count_conditions_def status_filter_def no_filter_def opt_cond_def)
qed

subsection \<open>The example data\<close>

lemmas example_defs =
  example_clock_def later_clock_def example_request_def example_book_def one_book_store_def
  reading_book_def reading_store_def rated_reading_book_def rated_reading_store_def
  empty_store_def

lemmas usecase_defs =
  CreateBook_def UpdateBook_def StartReading_def FinishReading_def DeleteBook_def GetBook_def
  validate_create_def zero_Time_def zero_time_def rating_error_def
  Create_def insert_row_def GetByID_def Update_def exec_update_def written_row_def Delete_def
  setParts_def status_parts_def opt_set_def no_update_def Let_def

lemmas handler_defs =
  h_CreateBook_def h_GetBook_def h_UpdateBook_def h_DeleteBook_def h_StartReading_def
  h_FinishReading_def h_ListBooks_def h_GetStatistics_def


lemma wf_one_book_store: "wf_store one_book_store"
  by (simp add: wf_store_def one_book_store_def example_book_def row_ok_def
        status_check_def rating_check_def)

lemma GetByID_one_book_store: "GetByID 1 one_book_store = Inr example_book"
  by (simp add: GetByID_def one_book_store_def example_book_def)

lemma CreateBook_example:
  "CreateBook example_clock example_request empty_store = (Inr example_book, one_book_store)"
  by (simp add: CreateBook_def validate_create_def zero_Time_def zero_time_def Create_def
        insert_row_def
        GetByID_def Let_def example_clock_def example_request_def empty_store_def
        example_book_def one_book_store_def)

lemma wf_reading_store: "wf_store reading_store"
  by (simp add: wf_store_def reading_store_def reading_book_def example_book_def row_ok_def
        status_check_def rating_check_def)

lemma GetByID_reading_store: "GetByID 1 reading_store = Inr reading_book"
  by (simp add: GetByID_def reading_store_def reading_book_def example_book_def)

lemma rated_reading_store_reached:
  "UpdateBook later_clock 1 (no_update\<lparr>uRating := Some 3\<rparr>) reading_store =
     (Inr rated_reading_book, rated_reading_store)"
  by (simp add: usecase_defs example_defs rating_check_def)

lemma two_book_store_reached:
  "CreateBook example_clock (example_request\<lparr>cTitle := ''D'', cTags := ''go,web''\<rparr>) one_book_store
     = (Inr second_book, two_book_store)"
  by (simp add: usecase_defs example_defs second_book_def two_book_store_def)

lemma wf_mixed_store: "wf_store mixed_store"
  by (simp add: wf_store_def mixed_store_def example_defs second_book_def row_ok_def
        status_check_def rating_check_def)

lemma order_by_ok_stable: "order_by_ok stable_engine"
proof -
  have "sorted (map (\<lambda>b::Book. - CreatedAt b) (sort_key (\<lambda>b. - CreatedAt b) xs))" for xs
    by (rule sorted_sort_key)
  then have "sorted_wrt (\<lambda>a b. CreatedAt b \<le> CreatedAt a)
               (sort_key (\<lambda>b::Book. - CreatedAt b) xs)" for xs
    by (simp add: sorted_map)
  then show ?thesis
    by (simp add: order_by_ok_def stable_engine_def)
qed

subsection \<open>Ties in the order of the table\<close>

lemma subseq_pair:
  assumes "subseq [a, b] xs"
  shows "\<exists>us vs ws. xs = us @ a # vs @ b # ws"
proof -
  from assms obtain us v vs where xs: "xs = us @ v # vs" and v: "a = v" and r: "subseq [b] vs"
    by (auto dest: list_emb_ConsD)
  from r obtain vs1 w ws where "vs = vs1 @ w # ws" "b = w"
    by (auto dest: list_emb_ConsD)
  with xs v show ?thesis by auto
qed

lemma subseq_nth_pair:
  assumes "i < j" and "j < length xs"
  shows "subseq [xs ! i, xs ! j] xs"
proof -
  have "xs = take i xs @ xs ! i # drop (Suc i) xs"
    using assms by (simp add: id_take_nth_drop)
  moreover have "drop (Suc i) xs = take (j - Suc i) (drop (Suc i) xs) @ xs ! j # drop (Suc j) xs"
    using assms id_take_nth_drop [of "j - Suc i" "drop (Suc i) xs"] by simp
  ultimately have
    "xs = take i xs @ xs ! i # take (j - Suc i) (drop (Suc i) xs) @ xs ! j # drop (Suc j) xs"
    by simp
  moreover have "subseq [a] (l2 @ a # l3)" for a :: 'a and l2 l3
    by (simp add: subseq_singleton_left)
  then have "subseq [a, b] (l1 @ a # l2 @ b # l3)" for a b :: 'a and l1 l2 l3
    by (simp add: subseq_drop_many subseq_Cons2)
  ultimately show ?thesis by metis
qed

lemma subseq_paging: "subseq (paging limit offset xs) xs"
proof -
  have t: "subseq (take n ys) ys" for n and ys :: "Book list"
    using subseq_rev_drop_many [of "take n ys" "take n ys" "drop n ys"] by simp
  have d: "subseq (drop n ys) ys" for n and ys :: "Book list"
    using subseq_drop_many [of "drop n ys" "drop n ys" "take n ys"] by simp
  have "subseq (take n (drop m xs)) xs" for n m
    using t [of n "drop m xs"] d [of m xs] by (rule subseq_order.order_trans)
  with t show ?thesis
    by (simp add: paging_def)
qed

lemma ties_in_table_order:
  assumes "order_by_stable eng"
  shows "subseq (filter (\<lambda>b. CreatedAt b = t) (List eng flt limit offset s)) (rows s)"
proof -
  let ?F = "filter (where_clause eng (List_conditions flt)) (rows s)"
  have "subseq (filter (\<lambda>b. CreatedAt b = t) (List eng flt limit offset s))
          (filter (\<lambda>b. CreatedAt b = t) (order_by eng ?F))"
    unfolding List_def by (rule subseq_filter [OF subseq_paging])
  also have "filter (\<lambda>b. CreatedAt b = t) (order_by eng ?F) = filter (\<lambda>b. CreatedAt b = t) ?F"
    using assms by (simp add: order_by_stable_def)
  also have "subseq (filter (\<lambda>b. CreatedAt b = t) ?F) ?F"
    by (rule subseq_filter_left)
  also have "subseq ?F (rows s)"
    by (rule subseq_filter_left)
  finally show ?thesis .
qed

lemma order_by_stable_stable: "order_by_stable stable_engine"
proof -
  have "filter (\<lambda>b. CreatedAt b = t) (sort_key (\<lambda>b::Book. - CreatedAt b) xs) =
        filter (\<lambda>b. CreatedAt b = t) xs" for xs t
    using sort_key_stable [of "\<lambda>b::Book. - CreatedAt b" "- t" xs] by simp
  then show ?thesis
    by (simp add: order_by_stable_def stable_engine_def)
qed

lemma List_four_book_page:
  "List stable_engine None 2 2 four_book_store = [second_book, third_book]"
  by (simp add: List_def paging_def List_conditions_def where_clause_def stable_engine_def
        four_book_store_def third_book_def fourth_book_def second_book_def example_book_def)

subsection \<open>Listing with a query\<close>

lemma ListBooks_long_tag:
  "ListBooks stable_engine (Some (query_filter long_tag_query)) (query_page long_tag_query)
     (query_limit long_tag_query) one_book_store = Inl ListFailed"
  by (simp add: ListBooks_def run_List_def Let_def List_conditions_def opt_cond_def
        query_filter_def long_tag_query_def no_query_def nonempty_def stable_engine_def
        one_book_store_def)

lemma ListBooks_tag:
  "ListBooks stable_engine (Some (query_filter tag_query)) (query_page tag_query)
     (query_limit tag_query) two_book_store = Inr ([second_book], 1)"
  by (simp add: ListBooks_def run_List_def run_Count_def Let_def List_def Count_def paging_def
        List_conditions_def Count_conditions_def opt_cond_def where_clause_def
        query_filter_def query_page_def query_limit_def tag_query_def no_query_def
        nonempty_def stable_engine_def two_book_store_def second_book_def example_book_def
        ascii_lower_def wrap64_def)

section \<open>The claims\<close>

text \<open>
  C1. For a stored book whose status is \<open>not_started\<close> or \<open>dropped\<close>, \<open>StartReading\<close>
  succeeds: the book returned and stored has status \<open>reading\<close> and the use case's
  current time as start-read date. For a stored book whose status is \<open>reading\<close> or
  \<open>completed\<close> it fails with a business-rule error and changes nothing. Hence a
  second \<open>StartReading\<close> after a successful one fails.
\<close>

theorem StartReading_guarded:
  assumes "wf_store s" and "GetByID i s = Inr b"
  shows "(Status b = StatusNotStarted \<or> Status b = StatusDropped \<longrightarrow>
            StartReading clk i s =
              (Inr (b\<lparr>Status := StatusReading, StartReadDate := Some (usecase_now clk),
                      UpdatedAt := db_now clk\<rparr>),
               rewrite_rows i (\<lambda>r. r\<lparr>Status := StatusReading,
                                      StartReadDate := Some (usecase_now clk),
                                      UpdatedAt := db_now clk\<rparr>) s)) \<and>
         (Status b = StatusReading \<or> Status b = StatusCompleted \<longrightarrow>
            (\<exists>e. StartReading clk i s = (Inl e, s) \<and> kind_of e = BusinessRuleError)) \<and>
         (\<forall>b' s' clk'. StartReading clk i s = (Inr b', s') \<longrightarrow>
            (\<exists>e. StartReading clk' i s' = (Inl e, s') \<and> kind_of e = BusinessRuleError))"
proof -
  have pos: "0 < i" using assms by (rule wf_store_id_pos)
  let ?g = "\<lambda>r. r\<lparr>Status := StatusReading, StartReadDate := Some (usecase_now clk),
                   UpdatedAt := db_now clk\<rparr>"
  have start: "StartReading clk i s = (Inr (?g b), rewrite_rows i ?g s)"
    if "Status b = StatusNotStarted \<or> Status b = StatusDropped"
    using that pos assms(2) Update_start [OF assms(2), of "repo_now clk" "db_now clk" "usecase_now clk"]
    by (auto simp: StartReading_def status_constants_distinct)
  have refuse: "\<exists>e. StartReading clk i s = (Inl e, s) \<and> kind_of e = BusinessRuleError"
    if "Status b = StatusReading \<or> Status b = StatusCompleted"
    using that pos assms(2) by (auto simp: StartReading_def)
  have again: "\<exists>e. StartReading clk' i s' = (Inl e, s') \<and> kind_of e = BusinessRuleError"
    if ok: "StartReading clk i s = (Inr b', s')" for b' s' clk'
  proof -
    from ok refuse have "\<not> (Status b = StatusReading \<or> Status b = StatusCompleted)"
      by auto
    with wf_store_status [OF assms] have "Status b = StatusNotStarted \<or> Status b = StatusDropped"
      by blast
    from start [OF this] ok have s': "s' = rewrite_rows i ?g s" by simp
    have "GetByID i s' = Inr (?g b)"
      unfolding s' by (rule GetByID_rewrite_rows [OF _ assms(2)]) simp
    then show ?thesis using pos by (simp add: StartReading_def)
  qed
  from start refuse again show ?thesis by blast
qed

theorem StartReading_guarded_witness:
  "wf_store one_book_store \<and> GetByID 1 one_book_store = Inr example_book \<and>
   Status example_book = StatusNotStarted \<and>
   StartReading later_clock 1 one_book_store = (Inr reading_book, reading_store) \<and>
   (\<exists>e. StartReading example_clock 1 reading_store = (Inl e, reading_store) \<and>
        kind_of e = BusinessRuleError) \<and>
   wf_store reading_store \<and> GetByID 1 reading_store = Inr reading_book \<and>
   Status reading_book = StatusReading \<and>
   (\<exists>e. StartReading later_clock 1 reading_store = (Inl e, reading_store) \<and>
        kind_of e = BusinessRuleError)"
  using StartReading_guarded [OF wf_one_book_store GetByID_one_book_store, of later_clock]
    StartReading_guarded [OF wf_reading_store GetByID_reading_store, of later_clock]
    wf_one_book_store GetByID_one_book_store wf_reading_store GetByID_reading_store
  by (simp add: rewrite_rows_def one_book_store_def reading_store_def reading_book_def
        example_book_def later_clock_def)

text \<open>
  C2, as amended. For a stored book whose status is \<open>reading\<close>, \<open>FinishReading\<close> with
  a rating that is absent or between 1 and 5 succeeds: the book returned and stored has
  status \<open>completed\<close>, the use case's current time as end-read date, and the rating
  supplied; with no rating supplied its rating is the one it had before, so it is unset
  only if it was unset. When the status is not \<open>reading\<close>, or a supplied rating is
  outside 1 to 5, the call fails with a business-rule error and changes nothing.
\<close>

theorem FinishReading_guarded:
  assumes "wf_store s" and "GetByID i s = Inr b"
  shows "(Status b = StatusReading \<and> rating_check rating \<longrightarrow>
            FinishReading clk i rating s =
              (Inr (b\<lparr>Status := StatusCompleted, EndReadDate := Some (usecase_now clk),
                      Rating := (case rating of None \<Rightarrow> Rating b | Some r \<Rightarrow> Some r),
                      UpdatedAt := db_now clk\<rparr>),
               rewrite_rows i
                 (\<lambda>r. r\<lparr>Status := StatusCompleted, EndReadDate := Some (usecase_now clk),
                         Rating := (case rating of None \<Rightarrow> Rating r | Some x \<Rightarrow> Some x),
                         UpdatedAt := db_now clk\<rparr>) s)) \<and>
         (Status b \<noteq> StatusReading \<or> \<not> rating_check rating \<longrightarrow>
            (\<exists>e. FinishReading clk i rating s = (Inl e, s) \<and> kind_of e = BusinessRuleError))"
proof -
  have pos: "0 < i" using assms by (rule wf_store_id_pos)
  have finish: "FinishReading clk i rating s =
      (Inr (b\<lparr>Status := StatusCompleted, EndReadDate := Some (usecase_now clk),
              Rating := (case rating of None \<Rightarrow> Rating b | Some r \<Rightarrow> Some r),
              UpdatedAt := db_now clk\<rparr>),
       rewrite_rows i
         (\<lambda>r. r\<lparr>Status := StatusCompleted, EndReadDate := Some (usecase_now clk),
                 Rating := (case rating of None \<Rightarrow> Rating r | Some x \<Rightarrow> Some x),
                 UpdatedAt := db_now clk\<rparr>) s)"
    if "Status b = StatusReading" "rating_check rating"
    using that pos assms(2)
      Update_finish [OF assms(2) that(2), of "repo_now clk" "db_now clk" "usecase_now clk"]
    by (simp add: FinishReading_def rating_error_None [THEN iffD2])
  have refuse: "\<exists>e. FinishReading clk i rating s = (Inl e, s) \<and> kind_of e = BusinessRuleError"
    if "Status b \<noteq> StatusReading \<or> \<not> rating_check rating"
  proof (cases "Status b = StatusReading")
    case False
    then show ?thesis using pos assms(2) by (simp add: FinishReading_def)
  next
    case True
    with that have "\<not> rating_check rating" by simp
    then obtain e where e: "rating_error rating = Some e"
      using rating_error_None [of rating] by (cases "rating_error rating") auto
    with True pos assms(2) rating_error_kind [OF e] show ?thesis
      by (simp add: FinishReading_def)
  qed
  from finish refuse show ?thesis by blast
qed

theorem FinishReading_guarded_witness:
  "wf_store reading_store \<and> GetByID 1 reading_store = Inr reading_book \<and>
   Status reading_book = StatusReading \<and> rating_check (Some 5) \<and>
   FinishReading later_clock 1 (Some 5) reading_store =
     (Inr (reading_book\<lparr>Status := StatusCompleted, EndReadDate := Some 2000,
                         Rating := Some 5\<rparr>),
      \<lparr>rows = [reading_book\<lparr>Status := StatusCompleted, EndReadDate := Some 2000,
                              Rating := Some 5\<rparr>], seq = 1\<rparr>) \<and>
   \<not> rating_check (Some 9) \<and>
   (\<exists>e. FinishReading later_clock 1 (Some 9) reading_store = (Inl e, reading_store) \<and>
        kind_of e = BusinessRuleError) \<and>
   wf_store one_book_store \<and> GetByID 1 one_book_store = Inr example_book \<and>
   Status example_book \<noteq> StatusReading \<and>
   (\<exists>e. FinishReading later_clock 1 None one_book_store = (Inl e, one_book_store) \<and>
        kind_of e = BusinessRuleError)"
  using FinishReading_guarded [OF wf_reading_store GetByID_reading_store, of "Some 5" later_clock]
    FinishReading_guarded [OF wf_reading_store GetByID_reading_store, of "Some 9" later_clock]
    FinishReading_guarded [OF wf_one_book_store GetByID_one_book_store, of None later_clock]
    wf_one_book_store GetByID_one_book_store wf_reading_store GetByID_reading_store
  by (simp add: rewrite_rows_def rating_check_def example_defs status_constants_distinct)

text \<open>
  C2 as stated fails: a book that was rated while being read keeps that rating when its
  reading is finished without one.
\<close>

theorem FinishReading_rating_counterexample:
  "CreateBook example_clock example_request empty_store = (Inr example_book, one_book_store) \<and>
   StartReading later_clock 1 one_book_store = (Inr reading_book, reading_store) \<and>
   UpdateBook later_clock 1 (no_update\<lparr>uRating := Some 3\<rparr>) reading_store =
     (Inr rated_reading_book, rated_reading_store) \<and>
   Status rated_reading_book = StatusReading \<and>
   FinishReading later_clock 1 None rated_reading_store =
     (Inr (rated_reading_book\<lparr>Status := StatusCompleted, EndReadDate := Some 2000\<rparr>),
      \<lparr>rows = [rated_reading_book\<lparr>Status := StatusCompleted, EndReadDate := Some 2000\<rparr>],
       seq = 1\<rparr>) \<and>
   Rating (rated_reading_book\<lparr>Status := StatusCompleted, EndReadDate := Some 2000\<rparr>) = Some 3"
  by (simp add: usecase_defs example_defs status_constants_distinct status_check_constants
        rating_check_def)

text \<open>
  C3. For every filter and every table, and every storage engine that honours
  \<open>ORDER BY\<close>, the number of books that \<open>List\<close> returns with limit 0 and offset 0 is
  the number that \<open>Count\<close> returns: the two functions assemble the same conditions.
\<close>

theorem List_Count_agree:
  assumes "order_by_ok eng"
  shows "int (length (List eng flt 0 0 s)) = Count eng flt s"
  by (simp add: List_def Count_def paging_def conditions_agree length_order_by [OF assms])

theorem List_Count_agree_witness:
  "order_by_ok stable_engine \<and>
   List stable_engine (Some (no_filter\<lparr>fTag := Some ''GO''\<rparr>)) 0 0 two_book_store = [second_book] \<and>
   Count stable_engine (Some (no_filter\<lparr>fTag := Some ''GO''\<rparr>)) two_book_store = 1"
proof -
  have "List stable_engine (Some (no_filter\<lparr>fTag := Some ''GO''\<rparr>)) 0 0 two_book_store
          = [second_book]"
    by (simp add: List_def paging_def List_conditions_def opt_cond_def no_filter_def
          where_clause_def stable_engine_def two_book_store_def second_book_def
          example_book_def ascii_lower_def)
  with List_Count_agree [OF order_by_ok_stable,
      of "Some (no_filter\<lparr>fTag := Some ''GO''\<rparr>)" two_book_store] order_by_ok_stable
  show ?thesis by simp
qed

text \<open>
  C4. For every well-formed table, \<open>GetStatistics\<close> returns statistics whose total
  is the sum of the four counts by status.
\<close>

theorem statistics_total:
  assumes "wf_store s"
  shows "\<exists>st. GetStatistics eng month_start clk s = Inr st \<and>
              TotalBooks st =
                NotStartedBooks st + ReadingBooks st + CompletedBooks st + DroppedBooks st"
proof -
  from assms have "list_all (\<lambda>b. status_check (Status b)) (rows s)"
    by (simp add: wf_store_def row_ok_def list_all_iff)
  from count_by_status [OF this] show ?thesis
    by (simp add: GetStatistics_def Let_def Count_all Count_status)
qed

theorem statistics_total_witness:
  "wf_store mixed_store \<and>
   (\<exists>st. GetStatistics stable_engine (\<lambda>t. 1000) example_clock mixed_store = Inr st \<and>
         TotalBooks st =
           NotStartedBooks st + ReadingBooks st + CompletedBooks st + DroppedBooks st \<and>
         TotalBooks st = 2 \<and> NotStartedBooks st = 1 \<and> ReadingBooks st = 1 \<and>
         CompletedBooks st = 0 \<and> DroppedBooks st = 0)"
proof -
  from statistics_total [OF wf_mixed_store, of stable_engine "\<lambda>t. 1000" example_clock]
  obtain st where st: "GetStatistics stable_engine (\<lambda>t. 1000) example_clock mixed_store = Inr st"
    and sum: "TotalBooks st =
       NotStartedBooks st + ReadingBooks st + CompletedBooks st + DroppedBooks st"
    by blast
  from st have "NotStartedBooks st = 1" "ReadingBooks st = 1" "CompletedBooks st = 0"
    "DroppedBooks st = 0"
    by (auto simp: GetStatistics_def Let_def Count_status mixed_store_def example_defs
          second_book_def status_constants_distinct)
  with st sum wf_mixed_store show ?thesis by simp
qed

text \<open>
  C5, as amended. When \<open>UpdateBook\<close> has succeeded, the same request repeated on the
  resulting table succeeds and returns the same book except for three fields: the
  start-read date, which is stamped again with the time of the second call when the
  request sets the status \<open>reading\<close> without a start-read date; the end-read date,
  stamped again when the request sets the status \<open>completed\<close> or \<open>dropped\<close> without
  an end-read date; and the updated-at timestamp, which is the time of the second write
  unless every field of the request is absent.
\<close>

theorem UpdateBook_repeated:
  assumes "wf_store s" and "UpdateBook clk1 i req s = (Inr b1, s1)"
  shows "fst (UpdateBook clk2 i req s1) =
           Inr (b1\<lparr>StartReadDate :=
                     (if uStatus req = Some StatusReading \<and> uStartReadDate req = None
                      then Some (repo_now clk2) else StartReadDate b1),
                   EndReadDate :=
                     (if (uStatus req = Some StatusCompleted \<or> uStatus req = Some StatusDropped)
                         \<and> uEndReadDate req = None
                      then Some (repo_now clk2) else EndReadDate b1),
                   UpdatedAt := (if req = no_update then UpdatedAt b1 else db_now clk2)\<rparr>)"
proof -
  from assms(2) have pos: "0 < i"
    by (auto simp: UpdateBook_def split: if_splits)
  from assms(2) pos obtain b0 where b0: "GetByID i s = Inr b0"
    by (cases "GetByID i s") (auto simp: UpdateBook_def)
  from assms(2) pos b0 have re: "rating_error (uRating req) = None"
    by (cases "rating_error (uRating req)") (auto simp: UpdateBook_def)
  with assms(2) pos b0
  have up: "Update (repo_now clk1) (db_now clk1) i req s = (Inr b1, s1)"
    by (simp add: UpdateBook_def)
  show ?thesis
  proof (cases "req = no_update")
    case True
    with up b0 have "b1 = b0" "s1 = s"
      using Update_nothing [OF setParts_no_update, of "repo_now clk1" "db_now clk1" i s]
      by simp_all
    with True b0 pos show ?thesis
      using Update_nothing [OF setParts_no_update, of "repo_now clk2" "db_now clk2" i s]
      by (simp add: UpdateBook_def rating_error_def no_update_def)
  next
    case False
    have stored: "GetByID i s1 = Inr b1"
      by (rule Update_success(4) [OF b0 False up])
    have stamps:
      "coalesce (stamp_start (repo_now clk2) req) (StartReadDate b1) =
         (if uStatus req = Some StatusReading \<and> uStartReadDate req = None
          then Some (repo_now clk2) else StartReadDate b1)"
      "coalesce (stamp_end (repo_now clk2) req) (EndReadDate b1) =
         (if (uStatus req = Some StatusCompleted \<or> uStatus req = Some StatusDropped)
             \<and> uEndReadDate req = None
          then Some (repo_now clk2) else EndReadDate b1)"
      by (simp_all add: coalesce_def stamp_start_def stamp_end_def)
    have "fst (UpdateBook clk2 i req s1) = fst (Update (repo_now clk2) (db_now clk2) i req s1)"
      using pos re stored by (simp add: UpdateBook_def)
    also note Update_twice [OF b0 False up, of "repo_now clk2" "db_now clk2"]
    finally show ?thesis
      using False unfolding stamps by simp
  qed
qed

theorem UpdateBook_repeated_witness:
  "wf_store one_book_store \<and>
   UpdateBook example_clock 1 (no_update\<lparr>uStatus := Some StatusReading, uTitle := Some ''C''\<rparr>)
     one_book_store =
     (Inr (example_book\<lparr>Title := ''C'', Status := StatusReading, StartReadDate := Some 1001\<rparr>),
      \<lparr>rows = [example_book\<lparr>Title := ''C'', Status := StatusReading,
                              StartReadDate := Some 1001\<rparr>], seq = 1\<rparr>) \<and>
   fst (UpdateBook later_clock 1 (no_update\<lparr>uStatus := Some StatusReading, uTitle := Some ''C''\<rparr>)
      \<lparr>rows = [example_book\<lparr>Title := ''C'', Status := StatusReading,
                              StartReadDate := Some 1001\<rparr>], seq = 1\<rparr>) =
     Inr (example_book\<lparr>Title := ''C'', Status := StatusReading, StartReadDate := Some 2001,
                        UpdatedAt := 2002\<rparr>)"
proof -
  have first: "UpdateBook example_clock 1
      (no_update\<lparr>uStatus := Some StatusReading, uTitle := Some ''C''\<rparr>) one_book_store =
     (Inr (example_book\<lparr>Title := ''C'', Status := StatusReading, StartReadDate := Some 1001\<rparr>),
      \<lparr>rows = [example_book\<lparr>Title := ''C'', Status := StatusReading,
                              StartReadDate := Some 1001\<rparr>], seq = 1\<rparr>)"
    by (simp add: usecase_defs example_defs status_check_constants status_constants_distinct)
  from UpdateBook_repeated [OF wf_one_book_store first, of later_clock] first wf_one_book_store
  show ?thesis
    by (simp add: no_update_def later_clock_def status_constants_distinct)
qed

text \<open>
  C5 as stated fails: setting the status \<open>reading\<close> twice, at two different times,
  gives two different books.
\<close>

theorem UpdateBook_repeated_counterexample:
  "CreateBook example_clock example_request empty_store = (Inr example_book, one_book_store) \<and>
   UpdateBook example_clock 1 (no_update\<lparr>uStatus := Some StatusReading\<rparr>) one_book_store =
     (Inr (example_book\<lparr>Status := StatusReading, StartReadDate := Some 1001\<rparr>),
      \<lparr>rows = [example_book\<lparr>Status := StatusReading, StartReadDate := Some 1001\<rparr>], seq = 1\<rparr>) \<and>
   UpdateBook later_clock 1 (no_update\<lparr>uStatus := Some StatusReading\<rparr>)
      \<lparr>rows = [example_book\<lparr>Status := StatusReading, StartReadDate := Some 1001\<rparr>], seq = 1\<rparr> =
     (Inr (example_book\<lparr>Status := StatusReading, StartReadDate := Some 2001,
                         UpdatedAt := 2002\<rparr>),
      \<lparr>rows = [example_book\<lparr>Status := StatusReading, StartReadDate := Some 2001,
                              UpdatedAt := 2002\<rparr>], seq = 1\<rparr>) \<and>
   example_book\<lparr>Status := StatusReading, StartReadDate := Some 2001, UpdatedAt := 2002\<rparr>
     \<noteq> example_book\<lparr>Status := StatusReading, StartReadDate := Some 1001\<rparr>"
  by (simp add: usecase_defs example_defs status_check_constants status_constants_distinct)




text \<open>
  C7, as amended. A rating can be set in every status: \<open>UpdateBook\<close> with a rating
  between 1 and 5 and no other field succeeds on a stored book whatever its status,
  stores the rating and leaves the status as it is.
\<close>

theorem UpdateBook_rating_any_status:
  assumes "wf_store s" and "GetByID i s = Inr b" and "1 \<le> r" and "r \<le> 5"
  shows "UpdateBook clk i (no_update\<lparr>uRating := Some r\<rparr>) s =
           (Inr (b\<lparr>Rating := Some r, UpdatedAt := db_now clk\<rparr>),
            rewrite_rows i (\<lambda>x. x\<lparr>Rating := Some r, UpdatedAt := db_now clk\<rparr>) s)"
proof -
  let ?req = "no_update\<lparr>uRating := Some r\<rparr>"
  have pos: "0 < i" using assms(1,2) by (rule wf_store_id_pos)
  have ne: "setParts (repo_now clk) ?req \<noteq> []"
    by (simp add: setParts_empty_iff no_update_iff)
  have ok: "list_all assignment_ok (setParts (repo_now clk) ?req)"
    using assms(3,4) by (simp add: assignment_ok_setParts rating_check_def no_update_def)
  have w: "written_row (setParts (repo_now clk) ?req) (db_now clk) =
             (\<lambda>x. x\<lparr>Rating := Some r, UpdatedAt := db_now clk\<rparr>)"
    by (rule ext) (rule written_row_rating)
  have "rating_error (uRating ?req) = None"
    using assms(3,4) by (simp add: rating_error_def)
  then show ?thesis
    using pos assms(2) Update_found [OF assms(2) ne ok, of "db_now clk"]
    by (simp add: UpdateBook_def w)
qed

theorem UpdateBook_rating_any_status_witness:
  "wf_store one_book_store \<and> GetByID 1 one_book_store = Inr example_book \<and>
   Status example_book = StatusNotStarted \<and> (1::int) \<le> 3 \<and> (3::int) \<le> 5 \<and>
   UpdateBook later_clock 1 (no_update\<lparr>uRating := Some 3\<rparr>) one_book_store =
     (Inr (example_book\<lparr>Rating := Some 3, UpdatedAt := 2002\<rparr>),
      \<lparr>rows = [example_book\<lparr>Rating := Some 3, UpdatedAt := 2002\<rparr>], seq = 1\<rparr>)"
  using UpdateBook_rating_any_status [OF wf_one_book_store GetByID_one_book_store, of 3 later_clock]
    wf_one_book_store GetByID_one_book_store
  by (simp add: rewrite_rows_def example_defs)

text \<open>
  C7 as stated fails: a book that was created and then rated through \<open>UpdateBook\<close> is
  stored with a rating while its status is \<open>not_started\<close>.
\<close>

theorem rating_on_unread_counterexample:
  "CreateBook example_clock example_request empty_store = (Inr example_book, one_book_store) \<and>
   UpdateBook later_clock 1 (no_update\<lparr>uRating := Some 3\<rparr>) one_book_store =
     (Inr (example_book\<lparr>Rating := Some 3, UpdatedAt := 2002\<rparr>),
      \<lparr>rows = [example_book\<lparr>Rating := Some 3, UpdatedAt := 2002\<rparr>], seq = 1\<rparr>) \<and>
   Status (example_book\<lparr>Rating := Some 3, UpdatedAt := 2002\<rparr>) = StatusNotStarted \<and>
   Rating (example_book\<lparr>Rating := Some 3, UpdatedAt := 2002\<rparr>) = Some 3"
  by (simp add: usecase_defs example_defs rating_check_def)

text \<open>
  C8, as amended. The status a handler answers with is selected by the operation, not by
  the kind of the error: create, update, start-reading and finish-reading answer every
  error of the use case with 400, get and delete answer every error of the use case
  with 404, and list answers every error of the use case with 500. A path id or a body
  that does not decode is answered with 400 by every handler that reads one.
\<close>

theorem status_by_operation:
  "fst (fst (h_CreateBook clk (Some req) s)) =
     (case fst (CreateBook clk req s) of Inl e \<Rightarrow> StatusBadRequest | Inr b \<Rightarrow> StatusCreated) \<and>
   fst (fst (h_GetBook (Some i) s)) =
     (case GetBook i s of Inl e \<Rightarrow> StatusNotFound | Inr b \<Rightarrow> StatusOK) \<and>
   fst (fst (h_ListBooks eng q s)) =
     (case ListBooks eng (Some (query_filter q)) (query_page q) (query_limit q) s of
        Inl e \<Rightarrow> StatusInternalServerError | Inr r \<Rightarrow> StatusOK) \<and>
   fst (fst (h_UpdateBook clk (Some i) (Some upd) s)) =
     (case fst (UpdateBook clk i upd s) of Inl e \<Rightarrow> StatusBadRequest | Inr b \<Rightarrow> StatusOK) \<and>
   fst (fst (h_DeleteBook (Some i) s)) =
     (case fst (DeleteBook i s) of Some e \<Rightarrow> StatusNotFound | None \<Rightarrow> StatusOK) \<and>
   fst (fst (h_StartReading clk (Some i) s)) =
     (case fst (StartReading clk i s) of Inl e \<Rightarrow> StatusBadRequest | Inr b \<Rightarrow> StatusOK) \<and>
   fst (fst (h_FinishReading clk (Some i) (Some rating) s)) =
     (case fst (FinishReading clk i rating s) of
        Inl e \<Rightarrow> StatusBadRequest | Inr b \<Rightarrow> StatusOK) \<and>
   fst (fst (h_CreateBook clk None s)) = StatusBadRequest \<and>
   fst (fst (h_GetBook None s)) = StatusBadRequest \<and>
   fst (fst (h_UpdateBook clk None body s)) = StatusBadRequest \<and>
   fst (fst (h_UpdateBook clk (Some i) None s)) = StatusBadRequest \<and>
   fst (fst (h_DeleteBook None s)) = StatusBadRequest \<and>
   fst (fst (h_StartReading clk None s)) = StatusBadRequest \<and>
   fst (fst (h_FinishReading clk None fbody s)) = StatusBadRequest \<and>
   fst (fst (h_FinishReading clk (Some i) None s)) = StatusBadRequest"
  by (simp add: handler_defs Let_def split: prod.splits sum.splits option.splits)

theorem status_by_operation_witness:
  "fst (fst (h_UpdateBook example_clock (Some 1) (Some no_update) empty_store)) = StatusBadRequest \<and>
   fst (UpdateBook example_clock 1 no_update empty_store) = Inl (BookNotFound 1) \<and>
   fst (fst (h_GetBook (Some 0) empty_store)) = StatusNotFound \<and>
   GetBook 0 empty_store = Inl (InvalidBookID 0) \<and>
   fst (fst (h_StartReading example_clock (Some 1) reading_store)) = StatusBadRequest \<and>
   fst (StartReading example_clock 1 reading_store) = Inl AlreadyReading \<and>
   fst (fst (h_DeleteBook (Some 2) one_book_store)) = StatusNotFound \<and>
   fst (DeleteBook 2 one_book_store) = Some (BookNotFound 2) \<and>
   fst (fst (h_ListBooks stable_engine long_tag_query one_book_store)) =
     StatusInternalServerError \<and>
   fst (fst (h_ListBooks stable_engine tag_query two_book_store)) = StatusOK"
proof -
  have "fst (UpdateBook example_clock 1 no_update empty_store) = Inl (BookNotFound 1)"
    "GetBook 0 empty_store = Inl (InvalidBookID 0)"
    "fst (StartReading example_clock 1 reading_store) = Inl AlreadyReading"
    "fst (DeleteBook 2 one_book_store) = Some (BookNotFound 2)"
    by (simp_all add: usecase_defs example_defs)
  with status_by_operation [where clk = example_clock and s = empty_store and i = 1
        and upd = no_update]
    status_by_operation [where s = empty_store and i = 0]
    status_by_operation [where clk = example_clock and s = reading_store and i = 1]
    status_by_operation [where s = one_book_store and i = 2 and eng = stable_engine
        and q = long_tag_query]
    status_by_operation [where s = two_book_store and eng = stable_engine and q = tag_query]
    ListBooks_long_tag ListBooks_tag
  show ?thesis by simp
qed

text \<open>
  C8 as stated fails: updating a book that does not exist is a \<open>NotFound\<close> answered
  with 400, and getting the book with id 0 is an \<open>InvalidArgument\<close> answered with 404.
\<close>

theorem status_by_kind_counterexample:
  "h_UpdateBook example_clock (Some 1) (Some no_update) empty_store =
     ((StatusBadRequest, ErrorResponse (Failed (BookNotFound 1))), empty_store) \<and>
   status_of_kind (kind_of (BookNotFound 1)) = StatusNotFound \<and>
   h_GetBook (Some 0) empty_store =
     ((StatusNotFound, ErrorResponse (Failed (InvalidBookID 0))), empty_store) \<and>
   status_of_kind (kind_of (InvalidBookID 0)) = StatusBadRequest \<and>
   StatusBadRequest \<noteq> StatusNotFound"
  by (simp add: handler_defs usecase_defs example_defs StatusBadRequest_def StatusNotFound_def)

text \<open>
  C9. For every filter and every page, with a storage engine that honours
  \<open>ORDER BY created_at DESC\<close> and is stable, as SQLite is, the books that \<open>List\<close>
  returns are in descending order of creation time, and of two books of the page with
  equal creation time the one listed first comes first in the table, that is, was
  inserted first.
\<close>

theorem List_descending_stable:
  assumes "order_by_ok eng" and "order_by_stable eng"
  shows "sorted_wrt (\<lambda>a b. CreatedAt b \<le> CreatedAt a) (List eng flt limit offset s) \<and>
         (\<forall>i j. i < j \<and> j < length (List eng flt limit offset s) \<and>
                CreatedAt (List eng flt limit offset s ! i) =
                CreatedAt (List eng flt limit offset s ! j) \<longrightarrow>
            (\<exists>us vs ws. rows s =
               us @ List eng flt limit offset s ! i # vs @ List eng flt limit offset s ! j # ws))"
proof -
  let ?P = "List eng flt limit offset s"
  from assms(1) have "sorted_wrt (\<lambda>a b. CreatedAt b \<le> CreatedAt a) (order_by eng xs)" for xs
    by (simp add: order_by_ok_def)
  then have desc: "sorted_wrt (\<lambda>a b. CreatedAt b \<le> CreatedAt a) ?P"
    by (simp add: List_def paging_def sorted_wrt_take sorted_wrt_drop)
  have ties: "\<exists>us vs ws. rows s = us @ ?P ! i # vs @ ?P ! j # ws"
    if "i < j" "j < length ?P" "CreatedAt (?P ! i) = CreatedAt (?P ! j)" for i j
  proof -
    let ?t = "CreatedAt (?P ! j)"
    have "subseq [?P ! i, ?P ! j] ?P"
      using that(1,2) by (rule subseq_nth_pair)
    then have "subseq (filter (\<lambda>b. CreatedAt b = ?t) [?P ! i, ?P ! j])
                 (filter (\<lambda>b. CreatedAt b = ?t) ?P)"
      by (rule subseq_filter)
    then have "subseq [?P ! i, ?P ! j] (filter (\<lambda>b. CreatedAt b = ?t) ?P)"
      using that(3) by simp
    also have "subseq (filter (\<lambda>b. CreatedAt b = ?t) ?P) (rows s)"
      by (rule ties_in_table_order [OF assms(2)])
    finally show ?thesis by (rule subseq_pair)
  qed
  from desc ties show ?thesis by blast
qed

theorem List_descending_stable_witness:
  "order_by_ok stable_engine \<and> order_by_stable stable_engine \<and>
   rows four_book_store = [example_book, second_book, third_book, fourth_book] \<and>
   List stable_engine None 2 2 four_book_store = [second_book, third_book] \<and>
   CreatedAt second_book = CreatedAt third_book \<and>
   sorted_wrt (\<lambda>a b. CreatedAt b \<le> CreatedAt a) [second_book, third_book] \<and>
   (\<exists>us vs ws. rows four_book_store = us @ second_book # vs @ third_book # ws)"
proof -
  note inst = List_descending_stable [OF order_by_ok_stable order_by_stable_stable,
      of None 2 2 four_book_store]
  have eq: "CreatedAt second_book = CreatedAt third_book"
    by (simp add: second_book_def third_book_def)
  from inst have "sorted_wrt (\<lambda>a b. CreatedAt b \<le> CreatedAt a) [second_book, third_book]"
    by (simp add: List_four_book_page)
  moreover from inst
  have "(0::nat) < 1 \<and> 1 < length (List stable_engine None 2 2 four_book_store) \<and>
      CreatedAt (List stable_engine None 2 2 four_book_store ! 0) =
      CreatedAt (List stable_engine None 2 2 four_book_store ! 1) \<longrightarrow>
      (\<exists>us vs ws. rows four_book_store =
         us @ List stable_engine None 2 2 four_book_store ! 0 # vs @
         List stable_engine None 2 2 four_book_store ! 1 # ws)"
    by blast
  with eq have "\<exists>us vs ws. rows four_book_store = us @ second_book # vs @ third_book # ws"
    by (simp add: List_four_book_page)
  ultimately show ?thesis
    using order_by_ok_stable order_by_stable_stable eq List_four_book_page
    by (simp add: four_book_store_def)
qed

text \<open>
  C10. For every existing book id, \<open>UpdateBook\<close> with a request whose fields are all
  absent succeeds, writes nothing, and returns the book as it is stored, the
  updated-at timestamp included: the table after the call is the table before it.
\<close>

theorem UpdateBook_all_absent:
  assumes "wf_store s" and "GetByID i s = Inr b"
  shows "UpdateBook clk i no_update s = (Inr b, s)"
proof -
  have "0 < i" using assms by (rule wf_store_id_pos)
  moreover have "Update (repo_now clk) (db_now clk) i no_update s = (Inr b, s)"
    using Update_nothing [OF setParts_no_update] assms(2) by simp
  ultimately show ?thesis
    using assms(2) by (simp add: UpdateBook_def rating_error_def no_update_def)
qed

theorem UpdateBook_all_absent_witness:
  "wf_store one_book_store \<and> GetByID 1 one_book_store = Inr example_book \<and>
   UpdateBook example_clock 1 no_update one_book_store = (Inr example_book, one_book_store)"
  using UpdateBook_all_absent [OF wf_one_book_store GetByID_one_book_store, of example_clock]
    wf_one_book_store GetByID_one_book_store
  by simp

end
